theory Spec2Isabelle
  imports Main "HOL-Library.Word"
begin

section \<open>Data model\<close>

text \<open>
  The controller of \<^verbatim>\<open>internal/controller/chianode_controller.go\<close> builds Kubernetes
  manifests from a ChiaNode custom resource.  Go structs are records, pointer-typed optional
  fields are \<open>option\<close>s, \<^verbatim>\<open>int32\<close> is a 32-bit word, and a \<^verbatim>\<open>map[string]string\<close> is a
  partial function on strings (a nil map and an empty map are both \<open>Map.empty\<close>: the code
  only ranges over such maps or hands them on).  A Go struct literal that leaves fields out
  gives them their zero value; the zero records below (suffix \<open>0\<close>) play that part, and a
  literal is written as an update of the zero record.  Fields of the Kubernetes types that
  the controller never assigns are left out of the records.
\<close>

type_synonym int32 = "32 word"
type_synonym string_map = "string \<rightharpoonup> string"

subsection \<open>Kubernetes API types (k8s.io/api, k8s.io/apimachinery)\<close>

record TypeMeta =
  Kind :: string
  APIVersion :: string

record OwnerReference =
  APIVersion :: string
  Kind :: string
  Name :: string
  UID :: string
  Controller :: "bool option"

record ObjectMeta =
  Name :: string
  Namespace :: string
  UID :: string
  Labels :: string_map
  Annotations :: string_map
  OwnerReferences :: "OwnerReference list"

definition ObjectMeta0 :: ObjectMeta where
  "ObjectMeta0 = \<lparr>ObjectMeta.Name = [], Namespace = [], UID = [], Labels = Map.empty,
     Annotations = Map.empty, OwnerReferences = []\<rparr>"

datatype IntOrString = FromInt int32 | FromString string

record ServicePort =
  Name :: string
  Protocol :: string
  Port :: int32
  TargetPort :: IntOrString

record ServiceSpec =
  Ports :: "ServicePort list"
  Selector :: string_map
  ClusterIP :: string
  Type :: string
  InternalTrafficPolicy :: "string option"

definition ServiceSpec0 :: ServiceSpec where
  "ServiceSpec0 = \<lparr>Ports = [], Selector = Map.empty, ClusterIP = [], Type = [],
     InternalTrafficPolicy = None\<rparr>"

record Service =
  ObjectMeta :: ObjectMeta
  Spec :: ServiceSpec

record EnvVar =
  Name :: string
  Value :: string

record ContainerPort =
  Name :: string
  ContainerPort :: int32
  Protocol :: string

record VolumeMount =
  Name :: string
  MountPath :: string

record HTTPGetAction =
  Path :: string
  Port :: IntOrString

text \<open>\<^verbatim>\<open>corev1.Probe\<close> embeds its \<^verbatim>\<open>ProbeHandler\<close>; the fields are those the controller
  assigns for the exporter sidecar.\<close>

record Probe =
  HTTPGet :: "HTTPGetAction option"
  FailureThreshold :: int32
  PeriodSeconds :: int32

definition Probe0 :: Probe where
  "Probe0 = \<lparr>HTTPGet = None, FailureThreshold = 0, PeriodSeconds = 0\<rparr>"

text \<open>Security contexts are handed on untouched; their contents are never inspected.\<close>

typedecl SecurityContext
typedecl PodSecurityContext

text \<open>A resource list maps a resource name to a parsed quantity.  The type \<open>'q\<close> of
  quantities belongs to \<^verbatim>\<open>k8s.io/apimachinery/pkg/api/resource\<close> and stays a parameter.\<close>

record 'q ResourceRequirements =
  Limits :: "string \<rightharpoonup> 'q"
  Requests :: "string \<rightharpoonup> 'q"

definition ResourceRequirements0 :: "'q ResourceRequirements" where
  "ResourceRequirements0 = \<lparr>Limits = Map.empty, Requests = Map.empty\<rparr>"

record 'q Container =
  Name :: string
  SecurityContext :: "SecurityContext option"
  Image :: string
  ImagePullPolicy :: string
  Env :: "EnvVar list"
  Ports :: "ContainerPort list"
  LivenessProbe :: "Probe option"
  ReadinessProbe :: "Probe option"
  StartupProbe :: "Probe option"
  Resources :: "'q ResourceRequirements"
  VolumeMounts :: "VolumeMount list"

record SecretVolumeSource =
  SecretName :: string

record HostPathVolumeSource =
  Path :: string

record EmptyDirVolumeSource =
  Medium :: string

text \<open>\<^verbatim>\<open>corev1.Volume\<close> embeds its \<^verbatim>\<open>VolumeSource\<close>, a struct of optional pointers.\<close>

record Volume =
  Name :: string
  Secret :: "SecretVolumeSource option"
  HostPath :: "HostPathVolumeSource option"
  EmptyDir :: "EmptyDirVolumeSource option"

definition Volume0 :: Volume where
  "Volume0 = \<lparr>Volume.Name = [], Secret = None, HostPath = None, EmptyDir = None\<rparr>"

record 'q PersistentVolumeClaimSpec =
  AccessModes :: "string list"
  StorageClassName :: "string option"
  Resources :: "'q ResourceRequirements"

record 'q PersistentVolumeClaim =
  ObjectMeta :: ObjectMeta
  Spec :: "'q PersistentVolumeClaimSpec"

record 'q PodSpec =
  Containers :: "'q Container list"
  NodeSelector :: string_map
  Volumes :: "Volume list"
  SecurityContext :: "PodSecurityContext option"

record 'q PodTemplateSpec =
  ObjectMeta :: ObjectMeta
  Spec :: "'q PodSpec"

record LabelSelector =
  MatchLabels :: string_map

record 'q StatefulSetSpec =
  Replicas :: "int32 option"
  Selector :: "LabelSelector option"
  ServiceName :: string
  Template :: "'q PodTemplateSpec"
  VolumeClaimTemplates :: "'q PersistentVolumeClaim list"

record 'q StatefulSet =
  ObjectMeta :: ObjectMeta
  Spec :: "'q StatefulSetSpec"

subsection \<open>The ChiaNode custom resource (package api/v1)\<close>

text \<open>
  The declaration of \<^verbatim>\<open>ChiaNode\<close> is not among the sources at hand.  Its records list the
  fields that the controller reads, with the types that the uses and the sibling
  \<^verbatim>\<open>ChiaHarvester\<close> declaration (\<^verbatim>\<open>api/v1/chiaharvester_types.go\<close>) give them.
\<close>

record AdditionalMetadata =
  Labels :: string_map
  Annotations :: string_map

record 'q ChiaNodeConfigSpec =
  CASecretName :: string
  Testnet :: "bool option"
  LogLevel :: "string option"
  Timezone :: "string option"
  Image :: string
  LivenessProbe :: "Probe option"
  ReadinessProbe :: "Probe option"
  StartupProbe :: "Probe option"
  Resources :: "'q ResourceRequirements option"
  SecurityContext :: "SecurityContext option"

record ChiaExporterConfigSpec =
  Image :: string
  ServiceLabels :: string_map

record PersistentVolumeClaimConfig =
  StorageClass :: string
  ResourceRequest :: string

record HostPathVolumeConfig =
  Path :: string

record ChiaRootConfig =
  PersistentVolumeClaim :: "PersistentVolumeClaimConfig option"
  HostPathVolume :: "HostPathVolumeConfig option"

record StorageConfig =
  ChiaRoot :: "ChiaRootConfig option"

record 'q ChiaNodeSpec =
  AdditionalMetadata :: AdditionalMetadata
  ChiaConfig :: "'q ChiaNodeConfigSpec"
  ChiaExporterConfig :: ChiaExporterConfigSpec
  Storage :: "StorageConfig option"
  ServiceType :: string
  ImagePullPolicy :: "string option"
  NodeSelector :: string_map
  PodSecurityContext :: "PodSecurityContext option"
  Replicas :: "int32 option"

record ChiaNodeStatus =
  Ready :: bool

record 'q ChiaNode =
  TypeMeta :: TypeMeta
  ObjectMeta :: ObjectMeta
  Spec :: "'q ChiaNodeSpec"
  Status :: ChiaNodeStatus

section \<open>Errors and the quantity parser\<close>

text \<open>
  Go errors are values.  The controller asks one question of an error of the cluster client,
  \<^verbatim>\<open>errors.IsNotFound\<close>, and otherwise formats it (\<^verbatim>\<open>%v\<close> prints \<^verbatim>\<open>Error()\<close>);
  \<^verbatim>\<open>fmt.Errorf\<close> without \<^verbatim>\<open>%w\<close> builds a plain error from its text.
\<close>

datatype error = NotFoundError string | OtherError string

fun Error :: "error \<Rightarrow> string" where
  "Error (NotFoundError msg) = msg"
| "Error (OtherError msg) = msg"

fun IsNotFound :: "error \<Rightarrow> bool" where
  "IsNotFound (NotFoundError msg) = True"
| "IsNotFound (OtherError msg) = False"

definition IgnoreNotFound :: "error option \<Rightarrow> error option" where
  "IgnoreNotFound err =
     (case err of None \<Rightarrow> None | Some e \<Rightarrow> if IsNotFound e then None else Some e)"

datatype panic = Panic error

text \<open>
  \<^verbatim>\<open>resource.MustParse\<close> is a function of \<^verbatim>\<open>k8s.io/apimachinery\<close>, outside the
  repository: it calls \<^verbatim>\<open>ParseQuantity\<close> and panics when that returns an error.
  \<^verbatim>\<open>ParseQuantity\<close> begins by rejecting the empty string with \<^verbatim>\<open>ErrFormatWrong\<close>; what it
  does with a non-empty string is the parameter \<open>parseQuantityString\<close> of the model.
  The text of \<^verbatim>\<open>ErrFormatWrong\<close> is shortened.
\<close>

type_synonym 'q quantity_parser = "string \<Rightarrow> error + 'q"

definition ErrFormatWrong :: error where
  "ErrFormatWrong = OtherError ''quantities must match the regular expression''"

definition ParseQuantity :: "'q quantity_parser \<Rightarrow> string \<Rightarrow> error + 'q" where
  "ParseQuantity parseQuantityString str =
     (if length str = 0 then Inl ErrFormatWrong else parseQuantityString str)"

definition MustParse :: "'q quantity_parser \<Rightarrow> string \<Rightarrow> panic + 'q" where
  "MustParse parseQuantityString str =
     (case ParseQuantity parseQuantityString str of
        Inl err \<Rightarrow>
          Inl (Panic (OtherError
            (''cannot parse '' @ [CHR 0x27] @ str @ [CHR 0x27] @ '': '' @ Error err)))
      | Inr q \<Rightarrow> Inr q)"

section \<open>Shared helpers (package controller)\<close>

definition daemonPort :: int32 where "daemonPort = 55400"
definition chiaExporterPort :: int32 where "chiaExporterPort = 9914"
definition mainnetNodePort :: int32 where "mainnetNodePort = 8444"
definition testnetNodePort :: int32 where "testnetNodePort = 58444"
definition nodeRPCPort :: int32 where "nodeRPCPort = 8555"

definition defaultChiaExporterImage :: string where
  "defaultChiaExporterImage = ''ghcr.io/chia-network/chia-exporter:latest''"

definition controllerOwner :: bool where
  "controllerOwner = True"

text \<open>The package-level \<^verbatim>\<open>getCommonLabels\<close>: two assignments into the map it is given.\<close>

definition getCommonLabels :: "string_map \<Rightarrow> string_map" where
  "getCommonLabels labels =
     (let labels = labels(''app.kubernetes.io/name'' \<mapsto> ''chia'');
          labels = labels(''app.kubernetes.io/managed-by'' \<mapsto> ''chia-operator'')
      in labels)"

definition getChiaExporterContainer ::
  "string \<Rightarrow> SecurityContext option \<Rightarrow> string \<Rightarrow> 'q ResourceRequirements \<Rightarrow> 'q Container" where
  "getChiaExporterContainer image' secContext pullPolicy resReq =
     \<lparr>Container.Name = ''chia-exporter'',
      Container.SecurityContext = secContext,
      Container.Image = image',
      Container.ImagePullPolicy = pullPolicy,
      Container.Env = [\<lparr>EnvVar.Name = ''CHIA_ROOT'', Value = ''/chia-data''\<rparr>],
      Container.Ports =
        [\<lparr>ContainerPort.Name = ''metrics'', ContainerPort = chiaExporterPort,
          ContainerPort.Protocol = ''TCP''\<rparr>],
      Container.LivenessProbe = Some (Probe0\<lparr>HTTPGet :=
        Some \<lparr>HTTPGetAction.Path = ''/healthz'', HTTPGetAction.Port = FromInt chiaExporterPort\<rparr>\<rparr>),
      Container.ReadinessProbe = Some (Probe0\<lparr>HTTPGet :=
        Some \<lparr>HTTPGetAction.Path = ''/healthz'', HTTPGetAction.Port = FromInt chiaExporterPort\<rparr>\<rparr>),
      Container.StartupProbe = Some (Probe0\<lparr>HTTPGet :=
        Some \<lparr>HTTPGetAction.Path = ''/healthz'', HTTPGetAction.Port = FromInt chiaExporterPort\<rparr>,
        FailureThreshold := 30, PeriodSeconds := 10\<rparr>),
      Container.Resources = resReq,
      Container.VolumeMounts = [\<lparr>VolumeMount.Name = ''chiaroot'', MountPath = ''/chia-data''\<rparr>]\<rparr>"

section \<open>Helpers of the ChiaNode reconciler\<close>

text \<open>The method \<^verbatim>\<open>(r *ChiaNodeReconciler) getCommonLabels\<close>: every additional map is
  copied into a fresh map, a later map overwriting an earlier one, then the identity keys
  are assigned.\<close>

definition ChiaNodeReconciler_getCommonLabels ::
  "'q ChiaNode \<Rightarrow> string_map list \<Rightarrow> string_map" where
  "ChiaNodeReconciler_getCommonLabels node additionalLabels =
     (let labels = foldl (\<lambda>labels addition. labels ++ addition) Map.empty additionalLabels;
          labels = labels(''app.kubernetes.io/instance'' \<mapsto> ObjectMeta.Name (ChiaNode.ObjectMeta node));
          labels = labels(''chianode-owner'' \<mapsto> ObjectMeta.Name (ChiaNode.ObjectMeta node));
          labels = getCommonLabels labels
      in labels)"

definition getOwnerReference :: "'q ChiaNode \<Rightarrow> OwnerReference list" where
  "getOwnerReference node =
     [\<lparr>OwnerReference.APIVersion = TypeMeta.APIVersion (ChiaNode.TypeMeta node),
       OwnerReference.Kind = TypeMeta.Kind (ChiaNode.TypeMeta node),
       OwnerReference.Name = ObjectMeta.Name (ChiaNode.ObjectMeta node),
       OwnerReference.UID = ObjectMeta.UID (ChiaNode.ObjectMeta node),
       Controller = Some controllerOwner\<rparr>]"

definition getFullNodePort :: "'q ChiaNode \<Rightarrow> int32" where
  "getFullNodePort node =
     (case Testnet (ChiaConfig (ChiaNode.Spec node)) of
        Some testnet \<Rightarrow> if testnet then testnetNodePort else mainnetNodePort
      | None \<Rightarrow> mainnetNodePort)"

definition getChiaNodeEnv :: "'q ChiaNode \<Rightarrow> EnvVar list" where
  "getChiaNodeEnv node =
     (let env = [];
          env = env @ [\<lparr>EnvVar.Name = ''service'', Value = ''node''\<rparr>];
          env = env @ [\<lparr>EnvVar.Name = ''CHIA_ROOT'', Value = ''/chia-data''\<rparr>];
          env = env @ [\<lparr>EnvVar.Name = ''keys'', Value = ''none''\<rparr>];
          env = env @ [\<lparr>EnvVar.Name = ''ca'', Value = ''/chia-ca''\<rparr>];
          env = (case Testnet (ChiaConfig (ChiaNode.Spec node)) of
                   Some testnet \<Rightarrow>
                     if testnet then env @ [\<lparr>EnvVar.Name = ''testnet'', Value = ''true''\<rparr>] else env
                 | None \<Rightarrow> env);
          env = (case Timezone (ChiaConfig (ChiaNode.Spec node)) of
                   Some tz \<Rightarrow> env @ [\<lparr>EnvVar.Name = ''TZ'', Value = tz\<rparr>]
                 | None \<Rightarrow> env);
          env = (case LogLevel (ChiaConfig (ChiaNode.Spec node)) of
                   Some lvl \<Rightarrow> env @ [\<lparr>EnvVar.Name = ''log_level'', Value = lvl\<rparr>]
                 | None \<Rightarrow> env)
      in env)"

definition getChiaVolumeMounts :: "'q ChiaNode \<Rightarrow> VolumeMount list" where
  "getChiaVolumeMounts node =
     (let v = [];
          v = v @ [\<lparr>VolumeMount.Name = ''secret-ca'', MountPath = ''/chia-ca''\<rparr>];
          v = v @ [\<lparr>VolumeMount.Name = ''chiaroot'', MountPath = ''/chia-data''\<rparr>]
      in v)"

text \<open>
  \<^verbatim>\<open>getChiaVolumesAndTemplates\<close> returns the pod's volumes and the volume claim
  templates.  The claim template holds \<^verbatim>\<open>resource.MustParse(...ResourceRequest)\<close>, which
  can panic: the result is a sum, \<open>Inl\<close> the panic.  The triple of the inner case is the
  state of the variables \<^verbatim>\<open>v\<close>, \<^verbatim>\<open>vcts\<close>, \<^verbatim>\<open>chiaRootAdded\<close> after the outer
  \<^verbatim>\<open>if\<close>.
\<close>

definition getChiaVolumesAndTemplates ::
  "'q quantity_parser \<Rightarrow> 'q ChiaNode \<Rightarrow> panic + (Volume list \<times> 'q PersistentVolumeClaim list)" where
  "getChiaVolumesAndTemplates parseQuantityString node =
     (let v = [];
          vcts = [];
          v = v @ [Volume0\<lparr>Volume.Name := ''secret-ca'',
                 Secret := Some \<lparr>SecretName = CASecretName (ChiaConfig (ChiaNode.Spec node))\<rparr>\<rparr>];
          chiaRootAdded = False
      in case (case Storage (ChiaNode.Spec node) of
                 None \<Rightarrow> Inr (v, vcts, chiaRootAdded)
               | Some storage \<Rightarrow>
                  (case ChiaRoot storage of
                     None \<Rightarrow> Inr (v, vcts, chiaRootAdded)
                   | Some chiaRoot \<Rightarrow>
                      (case PersistentVolumeClaim chiaRoot of
                         Some pvc \<Rightarrow>
                           (case MustParse parseQuantityString (ResourceRequest pvc) of
                              Inl p \<Rightarrow> Inl p
                            | Inr quantity \<Rightarrow>
                                Inr (v,
                                  vcts @ [\<lparr>PersistentVolumeClaim.ObjectMeta =
                                             ObjectMeta0\<lparr>ObjectMeta.Name := ''chiaroot''\<rparr>,
                                           PersistentVolumeClaim.Spec =
                                             \<lparr>AccessModes = [''ReadWriteOnce''],
                                              StorageClassName = Some (StorageClass pvc),
                                              PersistentVolumeClaimSpec.Resources =
                                                ResourceRequirements0\<lparr>Requests :=
                                                  [''storage'' \<mapsto> quantity]\<rparr>\<rparr>\<rparr>],
                                  True))
                       | None \<Rightarrow>
                           (case HostPathVolume chiaRoot of
                              Some hostPath \<Rightarrow>
                                Inr (v @ [Volume0\<lparr>Volume.Name := ''chiaroot'',
                                            HostPath := Some \<lparr>HostPathVolumeSource.Path =
                                              HostPathVolumeConfig.Path hostPath\<rparr>\<rparr>],
                                     vcts, True)
                            | None \<Rightarrow> Inr (v, vcts, chiaRootAdded))))) of
           Inl p \<Rightarrow> Inl p
         | Inr (v, vcts, chiaRootAdded) \<Rightarrow>
             Inr (if \<not> chiaRootAdded
                  then v @ [Volume0\<lparr>Volume.Name := ''chiaroot'',
                              EmptyDir := Some \<lparr>Medium = []\<rparr>\<rparr>]
                  else v,
                  vcts))"

section \<open>Synthesis of the child resources\<close>

text \<open>Each Service literal sets name, namespace, labels, annotations and owner references of
  its metadata and type, ports and selector (and, per flavour, one more field) of its spec.\<close>

definition assembleBaseService :: "'q ChiaNode \<Rightarrow> Service" where
  "assembleBaseService node =
     \<lparr>Service.ObjectMeta = ObjectMeta0
        \<lparr>ObjectMeta.Name := ObjectMeta.Name (ChiaNode.ObjectMeta node) @ ''-node'',
         ObjectMeta.Namespace := ObjectMeta.Namespace (ChiaNode.ObjectMeta node),
         ObjectMeta.Labels := ChiaNodeReconciler_getCommonLabels node
           [AdditionalMetadata.Labels (AdditionalMetadata (ChiaNode.Spec node))],
         ObjectMeta.Annotations :=
           AdditionalMetadata.Annotations (AdditionalMetadata (ChiaNode.Spec node)),
         OwnerReferences := getOwnerReference node\<rparr>,
      Service.Spec = ServiceSpec0
        \<lparr>ServiceSpec.Type := ServiceType (ChiaNode.Spec node),
         ServiceSpec.Ports :=
           [\<lparr>ServicePort.Name = ''daemon'', ServicePort.Protocol = ''TCP'',
             ServicePort.Port = daemonPort, TargetPort = FromString ''daemon''\<rparr>,
            \<lparr>ServicePort.Name = ''peers'', ServicePort.Protocol = ''TCP'',
             ServicePort.Port = getFullNodePort node, TargetPort = FromString ''peers''\<rparr>,
            \<lparr>ServicePort.Name = ''rpc'', ServicePort.Protocol = ''TCP'',
             ServicePort.Port = nodeRPCPort, TargetPort = FromString ''rpc''\<rparr>],
         ServiceSpec.Selector := ChiaNodeReconciler_getCommonLabels node
           [AdditionalMetadata.Labels (AdditionalMetadata (ChiaNode.Spec node))]\<rparr>\<rparr>"

definition assembleInternalService :: "'q ChiaNode \<Rightarrow> Service" where
  "assembleInternalService node =
     \<lparr>Service.ObjectMeta = ObjectMeta0
        \<lparr>ObjectMeta.Name := ObjectMeta.Name (ChiaNode.ObjectMeta node) @ ''-node-internal'',
         ObjectMeta.Namespace := ObjectMeta.Namespace (ChiaNode.ObjectMeta node),
         ObjectMeta.Labels := ChiaNodeReconciler_getCommonLabels node
           [AdditionalMetadata.Labels (AdditionalMetadata (ChiaNode.Spec node))],
         ObjectMeta.Annotations :=
           AdditionalMetadata.Annotations (AdditionalMetadata (ChiaNode.Spec node)),
         OwnerReferences := getOwnerReference node\<rparr>,
      Service.Spec = ServiceSpec0
        \<lparr>ServiceSpec.Type := ''ClusterIP'',
         InternalTrafficPolicy := Some ''Local'',
         ServiceSpec.Ports :=
           [\<lparr>ServicePort.Name = ''daemon'', ServicePort.Protocol = ''TCP'',
             ServicePort.Port = daemonPort, TargetPort = FromString ''daemon''\<rparr>,
            \<lparr>ServicePort.Name = ''peers'', ServicePort.Protocol = ''TCP'',
             ServicePort.Port = getFullNodePort node, TargetPort = FromString ''peers''\<rparr>,
            \<lparr>ServicePort.Name = ''rpc'', ServicePort.Protocol = ''TCP'',
             ServicePort.Port = nodeRPCPort, TargetPort = FromString ''rpc''\<rparr>],
         ServiceSpec.Selector := ChiaNodeReconciler_getCommonLabels node
           [AdditionalMetadata.Labels (AdditionalMetadata (ChiaNode.Spec node))]\<rparr>\<rparr>"

definition assembleHeadlessService :: "'q ChiaNode \<Rightarrow> Service" where
  "assembleHeadlessService node =
     \<lparr>Service.ObjectMeta = ObjectMeta0
        \<lparr>ObjectMeta.Name := ObjectMeta.Name (ChiaNode.ObjectMeta node) @ ''-node-headless'',
         ObjectMeta.Namespace := ObjectMeta.Namespace (ChiaNode.ObjectMeta node),
         ObjectMeta.Labels := ChiaNodeReconciler_getCommonLabels node
           [AdditionalMetadata.Labels (AdditionalMetadata (ChiaNode.Spec node))],
         ObjectMeta.Annotations :=
           AdditionalMetadata.Annotations (AdditionalMetadata (ChiaNode.Spec node)),
         OwnerReferences := getOwnerReference node\<rparr>,
      Service.Spec = ServiceSpec0
        \<lparr>ServiceSpec.Type := ''ClusterIP'',
         ClusterIP := ''None'',
         ServiceSpec.Ports :=
           [\<lparr>ServicePort.Name = ''daemon'', ServicePort.Protocol = ''TCP'',
             ServicePort.Port = daemonPort, TargetPort = FromString ''daemon''\<rparr>,
            \<lparr>ServicePort.Name = ''peers'', ServicePort.Protocol = ''TCP'',
             ServicePort.Port = getFullNodePort node, TargetPort = FromString ''peers''\<rparr>,
            \<lparr>ServicePort.Name = ''rpc'', ServicePort.Protocol = ''TCP'',
             ServicePort.Port = nodeRPCPort, TargetPort = FromString ''rpc''\<rparr>],
         ServiceSpec.Selector := ChiaNodeReconciler_getCommonLabels node
           [AdditionalMetadata.Labels (AdditionalMetadata (ChiaNode.Spec node))]\<rparr>\<rparr>"

definition assembleChiaExporterService :: "'q ChiaNode \<Rightarrow> Service" where
  "assembleChiaExporterService node =
     \<lparr>Service.ObjectMeta = ObjectMeta0
        \<lparr>ObjectMeta.Name := ObjectMeta.Name (ChiaNode.ObjectMeta node) @ ''-node-metrics'',
         ObjectMeta.Namespace := ObjectMeta.Namespace (ChiaNode.ObjectMeta node),
         ObjectMeta.Labels := ChiaNodeReconciler_getCommonLabels node
           [AdditionalMetadata.Labels (AdditionalMetadata (ChiaNode.Spec node)),
            ServiceLabels (ChiaExporterConfig (ChiaNode.Spec node))],
         ObjectMeta.Annotations :=
           AdditionalMetadata.Annotations (AdditionalMetadata (ChiaNode.Spec node)),
         OwnerReferences := getOwnerReference node\<rparr>,
      Service.Spec = ServiceSpec0
        \<lparr>ServiceSpec.Type := ''ClusterIP'',
         ServiceSpec.Ports :=
           [\<lparr>ServicePort.Name = ''metrics'', ServicePort.Protocol = ''TCP'',
             ServicePort.Port = chiaExporterPort, TargetPort = FromString ''metrics''\<rparr>],
         ServiceSpec.Selector := ChiaNodeReconciler_getCommonLabels node
           [AdditionalMetadata.Labels (AdditionalMetadata (ChiaNode.Spec node))]\<rparr>\<rparr>"

text \<open>
  \<^verbatim>\<open>assembleStatefulset\<close> first copies the optional settings of the chia container, then
  calls \<^verbatim>\<open>getChiaVolumesAndTemplates\<close> (whose panic ends the function), builds the
  StatefulSet literal, appends the exporter container and sets the pod security context.
  An assignment to a nested field such as \<^verbatim>\<open>stateful.Spec.Template.Spec.Containers\<close> is the
  composition of the records' update functions along that path.
\<close>

definition assembleStatefulset :: "'q quantity_parser \<Rightarrow> 'q ChiaNode \<Rightarrow> panic + 'q StatefulSet" where
  "assembleStatefulset parseQuantityString node =
     (let chiaSecContext =
            (case ChiaNodeConfigSpec.SecurityContext (ChiaConfig (ChiaNode.Spec node)) of
               Some c \<Rightarrow> Some c | None \<Rightarrow> None);
          chiaLivenessProbe =
            (case ChiaNodeConfigSpec.LivenessProbe (ChiaConfig (ChiaNode.Spec node)) of
               Some p \<Rightarrow> Some p | None \<Rightarrow> None);
          chiaReadinessProbe =
            (case ChiaNodeConfigSpec.ReadinessProbe (ChiaConfig (ChiaNode.Spec node)) of
               Some p \<Rightarrow> Some p | None \<Rightarrow> None);
          chiaStartupProbe =
            (case ChiaNodeConfigSpec.StartupProbe (ChiaConfig (ChiaNode.Spec node)) of
               Some p \<Rightarrow> Some p | None \<Rightarrow> None);
          chiaResources =
            (case ChiaNodeConfigSpec.Resources (ChiaConfig (ChiaNode.Spec node)) of
               Some res \<Rightarrow> res | None \<Rightarrow> ResourceRequirements0);
          imagePullPolicy =
            (case ChiaNodeSpec.ImagePullPolicy (ChiaNode.Spec node) of
               Some pol \<Rightarrow> pol | None \<Rightarrow> []);
          chiaExporterImage = ChiaExporterConfigSpec.Image (ChiaExporterConfig (ChiaNode.Spec node));
          chiaExporterImage =
            (if chiaExporterImage = [] then defaultChiaExporterImage else chiaExporterImage)
      in case getChiaVolumesAndTemplates parseQuantityString node of
           Inl p \<Rightarrow> Inl p
         | Inr (vols, volClaimTemplates) \<Rightarrow>
            (let stateful =
               \<lparr>StatefulSet.ObjectMeta = ObjectMeta0
                  \<lparr>ObjectMeta.Name := ObjectMeta.Name (ChiaNode.ObjectMeta node) @ ''-node'',
                   ObjectMeta.Namespace := ObjectMeta.Namespace (ChiaNode.ObjectMeta node),
                   ObjectMeta.Labels := ChiaNodeReconciler_getCommonLabels node
                     [AdditionalMetadata.Labels (AdditionalMetadata (ChiaNode.Spec node))],
                   ObjectMeta.Annotations :=
                     AdditionalMetadata.Annotations (AdditionalMetadata (ChiaNode.Spec node)),
                   OwnerReferences := getOwnerReference node\<rparr>,
                StatefulSet.Spec =
                  \<lparr>StatefulSetSpec.Replicas = ChiaNodeSpec.Replicas (ChiaNode.Spec node),
                   StatefulSetSpec.Selector =
                     Some \<lparr>MatchLabels = ChiaNodeReconciler_getCommonLabels node []\<rparr>,
                   ServiceName = ObjectMeta.Name (ChiaNode.ObjectMeta node) @ ''-headless'',
                   Template =
                     \<lparr>PodTemplateSpec.ObjectMeta = ObjectMeta0
                        \<lparr>ObjectMeta.Labels := ChiaNodeReconciler_getCommonLabels node
                           [AdditionalMetadata.Labels (AdditionalMetadata (ChiaNode.Spec node))],
                         ObjectMeta.Annotations :=
                           AdditionalMetadata.Annotations (AdditionalMetadata (ChiaNode.Spec node))\<rparr>,
                      PodTemplateSpec.Spec =
                        \<lparr>Containers =
                           [\<lparr>Container.Name = ''chia'',
                             Container.SecurityContext = chiaSecContext,
                             Container.Image = ChiaNodeConfigSpec.Image (ChiaConfig (ChiaNode.Spec node)),
                             Container.ImagePullPolicy = imagePullPolicy,
                             Container.Env = getChiaNodeEnv node,
                             Container.Ports =
                               [\<lparr>ContainerPort.Name = ''daemon'', ContainerPort = daemonPort,
                                 ContainerPort.Protocol = ''TCP''\<rparr>,
                                \<lparr>ContainerPort.Name = ''peers'', ContainerPort = getFullNodePort node,
                                 ContainerPort.Protocol = ''TCP''\<rparr>,
                                \<lparr>ContainerPort.Name = ''rpc'', ContainerPort = nodeRPCPort,
                                 ContainerPort.Protocol = ''TCP''\<rparr>],
                             Container.LivenessProbe = chiaLivenessProbe,
                             Container.ReadinessProbe = chiaReadinessProbe,
                             Container.StartupProbe = chiaStartupProbe,
                             Container.Resources = chiaResources,
                             Container.VolumeMounts = getChiaVolumeMounts node\<rparr>],
                         PodSpec.NodeSelector = ChiaNodeSpec.NodeSelector (ChiaNode.Spec node),
                         Volumes = vols,
                         PodSpec.SecurityContext = None\<rparr>\<rparr>,
                   VolumeClaimTemplates = volClaimTemplates\<rparr>\<rparr>;
                 exporterContainer = getChiaExporterContainer chiaExporterImage chiaSecContext
                   imagePullPolicy chiaResources;
                 stateful = StatefulSet.Spec_update (Template_update (PodTemplateSpec.Spec_update
                   (Containers_update (\<lambda>containers. containers @ [exporterContainer])))) stateful;
                 stateful =
                   (case PodSecurityContext (ChiaNode.Spec node) of
                      Some psc \<Rightarrow> StatefulSet.Spec_update (Template_update
                        (PodTemplateSpec.Spec_update (PodSpec.SecurityContext_update (\<lambda>_. Some psc))))
                        stateful
                    | None \<Rightarrow> stateful)
             in Inr stateful))"

section \<open>The reconciliation pass\<close>

text \<open>
  The cluster is reached through three calls: \<^verbatim>\<open>r.Get\<close>, the resource reconciler's
  \<^verbatim>\<open>ReconcileResource\<close> and \<^verbatim>\<open>r.Status().Update\<close>.  They belong to libraries outside
  the repository, so their answers are parameters (the record \<open>cluster\<close>); an answer may
  depend on the calls made before.  What the pass does to the cluster is the list of the
  calls it makes, in order, and the pass returns that list beside its Go result.  Logging is
  left out.
\<close>

record Result =
  Requeue :: bool
  RequeueAfter :: int

definition Result0 :: Result where
  "Result0 = \<lparr>Requeue = False, RequeueAfter = 0\<rparr>"

record NamespacedName =
  Namespace :: string
  Name :: string

definition String :: "NamespacedName \<Rightarrow> string" where
  "String n = NamespacedName.Namespace n @ ''/'' @ NamespacedName.Name n"

record Request =
  NamespacedName :: NamespacedName

datatype 'q object = ServiceObject Service | StatefulSetObject "'q StatefulSet"

datatype DesiredState = StateAbsent | StatePresent

datatype 'q call =
    GetCall NamespacedName
  | ReconcileResourceCall "'q object" DesiredState
  | StatusUpdateCall "'q ChiaNode"

record 'q cluster =
  Get_answer :: "NamespacedName \<Rightarrow> error + 'q ChiaNode"
  ReconcileResource_answer :: "'q call list \<Rightarrow> 'q object \<Rightarrow> DesiredState \<Rightarrow> Result option \<times> error option"
  StatusUpdate_answer :: "'q call list \<Rightarrow> 'q ChiaNode \<Rightarrow> error option"

datatype outcome = Returned Result "error option" | Panicked panic

text \<open>Each call takes the calls made so far and returns its answer with the extended list.\<close>

definition Get :: "'q cluster \<Rightarrow> 'q call list \<Rightarrow> NamespacedName \<Rightarrow> (error + 'q ChiaNode) \<times> 'q call list" where
  "Get r tr key = (Get_answer r key, tr @ [GetCall key])"

definition ReconcileResource ::
  "'q cluster \<Rightarrow> 'q call list \<Rightarrow> 'q object \<Rightarrow> DesiredState \<Rightarrow>
     (Result option \<times> error option) \<times> 'q call list" where
  "ReconcileResource r tr obj desired =
     (ReconcileResource_answer r tr obj desired, tr @ [ReconcileResourceCall obj desired])"

definition StatusUpdate :: "'q cluster \<Rightarrow> 'q call list \<Rightarrow> 'q ChiaNode \<Rightarrow> error option \<times> 'q call list" where
  "StatusUpdate r tr node = (StatusUpdate_answer r tr node, tr @ [StatusUpdateCall node])"

definition reconcileService ::
  "'q cluster \<Rightarrow> 'q call list \<Rightarrow> Service \<Rightarrow> (Result option \<times> error option) \<times> 'q call list" where
  "reconcileService rec tr service = ReconcileResource rec tr (ServiceObject service) StatePresent"

definition reconcileStatefulset ::
  "'q cluster \<Rightarrow> 'q call list \<Rightarrow> 'q StatefulSet \<Rightarrow> (Result option \<times> error option) \<times> 'q call list" where
  "reconcileStatefulset rec tr stateful =
     ReconcileResource rec tr (StatefulSetObject stateful) StatePresent"

definition Reconcile ::
  "'q quantity_parser \<Rightarrow> 'q cluster \<Rightarrow> Request \<Rightarrow> outcome \<times> 'q call list" where
  "Reconcile parseQuantityString r req =
     (case Get r [] (NamespacedName req) of
        (Inl err, tr) \<Rightarrow>
          (if IsNotFound err then (Returned Result0 None, tr)
           else (Returned Result0 (IgnoreNotFound (Some err)), tr))
      | (Inr node, tr) \<Rightarrow>
          (let srv = assembleBaseService node
           in (case reconcileService r tr srv of
                 ((res, Some err), tr) \<Rightarrow>
                   (let res = (case res of None \<Rightarrow> Result0 | Some res \<Rightarrow> res)
                    in (Returned res (Some (OtherError (''ChiaNodeReconciler ChiaNode='' @
                          String (NamespacedName req) @
                          '' encountered error reconciling node Service: '' @ Error err))), tr))
               | ((res, None), tr) \<Rightarrow>
                  (let srv = assembleInternalService node
                   in (case reconcileService r tr srv of
                         ((res, Some err), tr) \<Rightarrow>
                           (let res = (case res of None \<Rightarrow> Result0 | Some res \<Rightarrow> res)
                            in (Returned res (Some (OtherError (''ChiaNodeReconciler ChiaNode='' @
                                  String (NamespacedName req) @
                                  '' encountered error reconciling node Local Service: '' @ Error err))), tr))
                       | ((res, None), tr) \<Rightarrow>
                          (let srv = assembleHeadlessService node
                           in (case reconcileService r tr srv of
                                 ((res, Some err), tr) \<Rightarrow>
                                   (let res = (case res of None \<Rightarrow> Result0 | Some res \<Rightarrow> res)
                                    in (Returned res (Some (OtherError (''ChiaNodeReconciler ChiaNode='' @
                                          String (NamespacedName req) @
                                          '' encountered error reconciling node headless Service: '' @ Error err))), tr))
                               | ((res, None), tr) \<Rightarrow>
                                  (let srv = assembleChiaExporterService node
                                   in (case reconcileService r tr srv of
                                         ((res, Some err), tr) \<Rightarrow>
                                           (let res = (case res of None \<Rightarrow> Result0 | Some res \<Rightarrow> res)
                                            in (Returned res (Some (OtherError (''ChiaNodeReconciler ChiaNode='' @
                                                  String (NamespacedName req) @
                                                  '' encountered error reconciling node chia-exporter Service: '' @ Error err))), tr))
                                       | ((res, None), tr) \<Rightarrow>
                                          (case assembleStatefulset parseQuantityString node of
                                             Inl p \<Rightarrow> (Panicked p, tr)
                                           | Inr stateful \<Rightarrow>
                                              (case reconcileStatefulset r tr stateful of
                                                 ((res, Some err), tr) \<Rightarrow>
                                                   (let res = (case res of None \<Rightarrow> Result0 | Some res \<Rightarrow> res)
                                                    in (Returned res (Some (OtherError (''ChiaNodeReconciler ChiaNode='' @
                                                          String (NamespacedName req) @
                                                          '' encountered error reconciling node StatefulSet: '' @ Error err))), tr))
                                               | ((res, None), tr) \<Rightarrow>
                                                  (let node = node\<lparr>Status := (Status node)\<lparr>Ready := True\<rparr>\<rparr>
                                                   in (case StatusUpdate r tr node of
                                                         (Some err, tr) \<Rightarrow> (Returned Result0 (Some err), tr)
                                                       | (None, tr) \<Rightarrow> (Returned Result0 None, tr))))))))))))))"

section \<open>Example inputs\<close>

text \<open>A quantity parser that accepts every non-empty string and keeps its text.\<close>

definition anyQuantity :: "string quantity_parser" where
  "anyQuantity str = Inr str"

text \<open>A ChiaNode named \<open>alpha\<close> with every optional setting absent.\<close>

definition alpha :: "string ChiaNode" where
  "alpha =
     \<lparr>TypeMeta = \<lparr>TypeMeta.Kind = ''ChiaNode'', TypeMeta.APIVersion = ''k8s.chia.net/v1''\<rparr>,
      ChiaNode.ObjectMeta = ObjectMeta0
        \<lparr>ObjectMeta.Name := ''alpha'', ObjectMeta.Namespace := ''chia'', ObjectMeta.UID := ''uid-1''\<rparr>,
      ChiaNode.Spec =
        \<lparr>AdditionalMetadata =
           \<lparr>AdditionalMetadata.Labels = Map.empty, AdditionalMetadata.Annotations = Map.empty\<rparr>,
         ChiaConfig =
           \<lparr>CASecretName = ''chiaca-secret'', Testnet = None, LogLevel = None, Timezone = None,
            ChiaNodeConfigSpec.Image = ''ghcr.io/chia-network/chia:latest'',
            ChiaNodeConfigSpec.LivenessProbe = None, ChiaNodeConfigSpec.ReadinessProbe = None,
            ChiaNodeConfigSpec.StartupProbe = None, ChiaNodeConfigSpec.Resources = None,
            ChiaNodeConfigSpec.SecurityContext = None\<rparr>,
         ChiaExporterConfig = \<lparr>ChiaExporterConfigSpec.Image = [], ServiceLabels = Map.empty\<rparr>,
         Storage = None,
         ServiceType = ''ClusterIP'',
         ChiaNodeSpec.ImagePullPolicy = None,
         ChiaNodeSpec.NodeSelector = Map.empty,
         PodSecurityContext = None,
         ChiaNodeSpec.Replicas = None\<rparr>,
      Status = \<lparr>Ready = False\<rparr>\<rparr>"

definition withTestnet :: "bool option \<Rightarrow> 'q ChiaNode \<Rightarrow> 'q ChiaNode" where
  "withTestnet t node =
     node\<lparr>ChiaNode.Spec := (ChiaNode.Spec node)
       \<lparr>ChiaConfig := (ChiaConfig (ChiaNode.Spec node))\<lparr>Testnet := t\<rparr>\<rparr>\<rparr>"

definition withLabels :: "string_map \<Rightarrow> 'q ChiaNode \<Rightarrow> 'q ChiaNode" where
  "withLabels l node =
     node\<lparr>ChiaNode.Spec := (ChiaNode.Spec node)
       \<lparr>AdditionalMetadata := (AdditionalMetadata (ChiaNode.Spec node))
          \<lparr>AdditionalMetadata.Labels := l\<rparr>\<rparr>\<rparr>"

definition withChiaRoot :: "ChiaRootConfig \<Rightarrow> 'q ChiaNode \<Rightarrow> 'q ChiaNode" where
  "withChiaRoot c node =
     node\<lparr>ChiaNode.Spec := (ChiaNode.Spec node)\<lparr>Storage := Some \<lparr>ChiaRoot = Some c\<rparr>\<rparr>\<rparr>"

text \<open>A claim descriptor that asks for 100Gi, one whose request is the empty string, and a
  host path.\<close>

definition claim100Gi :: PersistentVolumeClaimConfig where
  "claim100Gi = \<lparr>StorageClass = ''standard'', ResourceRequest = ''100Gi''\<rparr>"

definition claimEmpty :: PersistentVolumeClaimConfig where
  "claimEmpty = \<lparr>StorageClass = ''standard'', ResourceRequest = []\<rparr>"

definition hostData :: HostPathVolumeConfig where
  "hostData = \<lparr>HostPathVolumeConfig.Path = ''/mnt/chia''\<rparr>"

text \<open>Clusters: one where every call succeeds, one where the second submission of the pass
  fails, one that no longer holds the requested object.\<close>

definition healthy :: "'q ChiaNode \<Rightarrow> 'q cluster" where
  "healthy node =
     \<lparr>Get_answer = (\<lambda>key. Inr node),
      ReconcileResource_answer = (\<lambda>tr obj desired. (None, None)),
      StatusUpdate_answer = (\<lambda>tr n. None)\<rparr>"

definition secondFails :: "'q ChiaNode \<Rightarrow> 'q cluster" where
  "secondFails node =
     \<lparr>Get_answer = (\<lambda>key. Inr node),
      ReconcileResource_answer = (\<lambda>tr obj desired.
        if length tr = 2 then (None, Some (OtherError ''connection refused'')) else (None, None)),
      StatusUpdate_answer = (\<lambda>tr n. None)\<rparr>"

definition deleted :: "'q cluster" where
  "deleted =
     \<lparr>Get_answer = (\<lambda>key. Inl (NotFoundError ''chianodes.k8s.chia.net not found'')),
      ReconcileResource_answer = (\<lambda>tr obj desired. (None, None)),
      StatusUpdate_answer = (\<lambda>tr n. None)\<rparr>"

definition alphaRequest :: Request where
  "alphaRequest = \<lparr>NamespacedName = \<lparr>NamespacedName.Namespace = ''chia'', NamespacedName.Name = ''alpha''\<rparr>\<rparr>"

section \<open>Auxiliary facts\<close>

lemma assembleStatefulset_isl:
  "isl (assembleStatefulset pq node) = isl (getChiaVolumesAndTemplates pq node)"
  by (cases "getChiaVolumesAndTemplates pq node")
     (simp_all add: assembleStatefulset_def Let_def split: prod.splits)

lemma assembleStatefulset_Inr:
  assumes "assembleStatefulset pq node = Inr st"
  shows "StatefulSet.ObjectMeta st = ObjectMeta0
        \<lparr>ObjectMeta.Name := ObjectMeta.Name (ChiaNode.ObjectMeta node) @ ''-node'',
         ObjectMeta.Namespace := ObjectMeta.Namespace (ChiaNode.ObjectMeta node),
         ObjectMeta.Labels := ChiaNodeReconciler_getCommonLabels node
           [AdditionalMetadata.Labels (AdditionalMetadata (ChiaNode.Spec node))],
         ObjectMeta.Annotations :=
           AdditionalMetadata.Annotations (AdditionalMetadata (ChiaNode.Spec node)),
         OwnerReferences := getOwnerReference node\<rparr>"
    and "StatefulSetSpec.Selector (StatefulSet.Spec st) =
           Some \<lparr>MatchLabels = ChiaNodeReconciler_getCommonLabels node []\<rparr>"
    and "ServiceName (StatefulSet.Spec st) =
           ObjectMeta.Name (ChiaNode.ObjectMeta node) @ ''-headless''"
    and "ObjectMeta.Labels (PodTemplateSpec.ObjectMeta (Template (StatefulSet.Spec st))) =
           ChiaNodeReconciler_getCommonLabels node
             [AdditionalMetadata.Labels (AdditionalMetadata (ChiaNode.Spec node))]"
    and "getChiaVolumesAndTemplates pq node =
           Inr (Volumes (PodTemplateSpec.Spec (Template (StatefulSet.Spec st))),
                VolumeClaimTemplates (StatefulSet.Spec st))"
    and "map Container.Name (Containers (PodTemplateSpec.Spec (Template (StatefulSet.Spec st)))) =
           [''chia'', ''chia-exporter'']"
    and "Container.Env (hd (Containers (PodTemplateSpec.Spec (Template (StatefulSet.Spec st))))) =
           getChiaNodeEnv node"
    and "Container.Ports (hd (Containers (PodTemplateSpec.Spec (Template (StatefulSet.Spec st))))) =
       [\<lparr>ContainerPort.Name = ''daemon'', ContainerPort = daemonPort, ContainerPort.Protocol = ''TCP''\<rparr>,
        \<lparr>ContainerPort.Name = ''peers'', ContainerPort = getFullNodePort node, ContainerPort.Protocol = ''TCP''\<rparr>,
        \<lparr>ContainerPort.Name = ''rpc'', ContainerPort = nodeRPCPort, ContainerPort.Protocol = ''TCP''\<rparr>]"
proof -
  obtain vols vcts where vs: "getChiaVolumesAndTemplates pq node = Inr (vols, vcts)"
    using assms by (cases "getChiaVolumesAndTemplates pq node")
      (auto simp add: assembleStatefulset_def Let_def)
  show "StatefulSet.ObjectMeta st = ObjectMeta0
        \<lparr>ObjectMeta.Name := ObjectMeta.Name (ChiaNode.ObjectMeta node) @ ''-node'',
         ObjectMeta.Namespace := ObjectMeta.Namespace (ChiaNode.ObjectMeta node),
         ObjectMeta.Labels := ChiaNodeReconciler_getCommonLabels node
           [AdditionalMetadata.Labels (AdditionalMetadata (ChiaNode.Spec node))],
         ObjectMeta.Annotations :=
           AdditionalMetadata.Annotations (AdditionalMetadata (ChiaNode.Spec node)),
         OwnerReferences := getOwnerReference node\<rparr>"
    using assms vs by (cases "PodSecurityContext (ChiaNode.Spec node)")
       (auto simp add: assembleStatefulset_def Let_def)
  show "StatefulSetSpec.Selector (StatefulSet.Spec st) =
           Some \<lparr>MatchLabels = ChiaNodeReconciler_getCommonLabels node []\<rparr>"
    using assms vs by (cases "PodSecurityContext (ChiaNode.Spec node)")
       (auto simp add: assembleStatefulset_def Let_def)
  show "ServiceName (StatefulSet.Spec st) =
           ObjectMeta.Name (ChiaNode.ObjectMeta node) @ ''-headless''"
    using assms vs by (cases "PodSecurityContext (ChiaNode.Spec node)")
       (auto simp add: assembleStatefulset_def Let_def)
  show "ObjectMeta.Labels (PodTemplateSpec.ObjectMeta (Template (StatefulSet.Spec st))) =
           ChiaNodeReconciler_getCommonLabels node
             [AdditionalMetadata.Labels (AdditionalMetadata (ChiaNode.Spec node))]"
    using assms vs by (cases "PodSecurityContext (ChiaNode.Spec node)")
       (auto simp add: assembleStatefulset_def Let_def)
  show "getChiaVolumesAndTemplates pq node =
           Inr (Volumes (PodTemplateSpec.Spec (Template (StatefulSet.Spec st))),
                VolumeClaimTemplates (StatefulSet.Spec st))"
    using assms vs by (cases "PodSecurityContext (ChiaNode.Spec node)")
       (auto simp add: assembleStatefulset_def Let_def)
  show "map Container.Name (Containers (PodTemplateSpec.Spec (Template (StatefulSet.Spec st)))) =
           [''chia'', ''chia-exporter'']"
    using assms vs by (cases "PodSecurityContext (ChiaNode.Spec node)")
       (auto simp add: assembleStatefulset_def Let_def getChiaExporterContainer_def)
  show "Container.Env (hd (Containers (PodTemplateSpec.Spec (Template (StatefulSet.Spec st))))) =
           getChiaNodeEnv node"
    using assms vs by (cases "PodSecurityContext (ChiaNode.Spec node)")
       (auto simp add: assembleStatefulset_def Let_def)
  show "Container.Ports (hd (Containers (PodTemplateSpec.Spec (Template (StatefulSet.Spec st))))) =
       [\<lparr>ContainerPort.Name = ''daemon'', ContainerPort = daemonPort, ContainerPort.Protocol = ''TCP''\<rparr>,
        \<lparr>ContainerPort.Name = ''peers'', ContainerPort = getFullNodePort node, ContainerPort.Protocol = ''TCP''\<rparr>,
        \<lparr>ContainerPort.Name = ''rpc'', ContainerPort = nodeRPCPort, ContainerPort.Protocol = ''TCP''\<rparr>]"
    using assms vs by (cases "PodSecurityContext (ChiaNode.Spec node)")
       (auto simp add: assembleStatefulset_def Let_def)
qed

lemma getChiaVolumesAndTemplates_isl:
  "isl (getChiaVolumesAndTemplates pq node) =
     (\<exists>storage chiaRoot pvc. Storage (ChiaNode.Spec node) = Some storage \<and>
        ChiaRoot storage = Some chiaRoot \<and> PersistentVolumeClaim chiaRoot = Some pvc \<and>
        isl (ParseQuantity pq (ResourceRequest pvc)))"
  by (auto simp add: getChiaVolumesAndTemplates_def MustParse_def Let_def
        split: option.splits sum.splits)

lemma volume_claim_templates_unowned:
  "getChiaVolumesAndTemplates pq node = Inr (vols, vcts) \<Longrightarrow>
     c \<in> set vcts \<Longrightarrow> OwnerReferences (PersistentVolumeClaim.ObjectMeta c) = []"
  by (auto simp add: getChiaVolumesAndTemplates_def Let_def ObjectMeta0_def
        split: option.splits sum.splits)

lemma getCommonLabels_eq:
  "ChiaNodeReconciler_getCommonLabels node additionalLabels =
     foldl (++) Map.empty additionalLabels ++
       [''app.kubernetes.io/instance'' \<mapsto> ObjectMeta.Name (ChiaNode.ObjectMeta node),
        ''chianode-owner'' \<mapsto> ObjectMeta.Name (ChiaNode.ObjectMeta node),
        ''app.kubernetes.io/name'' \<mapsto> ''chia'',
        ''app.kubernetes.io/managed-by'' \<mapsto> ''chia-operator'']"
  by (simp add: ChiaNodeReconciler_getCommonLabels_def getCommonLabels_def)

lemma getChiaNodeEnv_eq:
  "getChiaNodeEnv node =
     [\<lparr>EnvVar.Name = ''service'', Value = ''node''\<rparr>,
      \<lparr>EnvVar.Name = ''CHIA_ROOT'', Value = ''/chia-data''\<rparr>,
      \<lparr>EnvVar.Name = ''keys'', Value = ''none''\<rparr>,
      \<lparr>EnvVar.Name = ''ca'', Value = ''/chia-ca''\<rparr>]
     @ (if Testnet (ChiaConfig (ChiaNode.Spec node)) = Some True
        then [\<lparr>EnvVar.Name = ''testnet'', Value = ''true''\<rparr>] else [])
     @ (case Timezone (ChiaConfig (ChiaNode.Spec node)) of
          Some tz \<Rightarrow> [\<lparr>EnvVar.Name = ''TZ'', Value = tz\<rparr>] | None \<Rightarrow> [])
     @ (case LogLevel (ChiaConfig (ChiaNode.Spec node)) of
          Some lvl \<Rightarrow> [\<lparr>EnvVar.Name = ''log_level'', Value = lvl\<rparr>] | None \<Rightarrow> [])"
  by (simp add: getChiaNodeEnv_def Let_def split: option.splits)

lemma Reconcile_fail1:
  assumes "Get_answer r (NamespacedName req) = Inr node"
    and "ReconcileResource_answer r
       [GetCall (NamespacedName req)]
       (ServiceObject (assembleBaseService node)) StatePresent = (res, Some err)"
  shows "Reconcile pq r req =
    (Returned (case res of None \<Rightarrow> Result0 | Some res \<Rightarrow> res)
       (Some (OtherError (''ChiaNodeReconciler ChiaNode='' @ String (NamespacedName req) @
          '' encountered error reconciling node Service: '' @ Error err))),
     [GetCall (NamespacedName req),
      ReconcileResourceCall (ServiceObject (assembleBaseService node)) StatePresent])"
  using assms
  by (simp add: Reconcile_def Get_def reconcileService_def reconcileStatefulset_def
        ReconcileResource_def StatusUpdate_def)

lemma Reconcile_fail2:
  assumes "Get_answer r (NamespacedName req) = Inr node"
    and "ReconcileResource_answer r
       [GetCall (NamespacedName req)]
       (ServiceObject (assembleBaseService node)) StatePresent = (res1, None)"
    and "ReconcileResource_answer r
       [GetCall (NamespacedName req),
      ReconcileResourceCall (ServiceObject (assembleBaseService node)) StatePresent]
       (ServiceObject (assembleInternalService node)) StatePresent = (res, Some err)"
  shows "Reconcile pq r req =
    (Returned (case res of None \<Rightarrow> Result0 | Some res \<Rightarrow> res)
       (Some (OtherError (''ChiaNodeReconciler ChiaNode='' @ String (NamespacedName req) @
          '' encountered error reconciling node Local Service: '' @ Error err))),
     [GetCall (NamespacedName req),
      ReconcileResourceCall (ServiceObject (assembleBaseService node)) StatePresent,
      ReconcileResourceCall (ServiceObject (assembleInternalService node)) StatePresent])"
  using assms
  by (simp add: Reconcile_def Get_def reconcileService_def reconcileStatefulset_def
        ReconcileResource_def StatusUpdate_def)

lemma Reconcile_fail3:
  assumes "Get_answer r (NamespacedName req) = Inr node"
    and "ReconcileResource_answer r
       [GetCall (NamespacedName req)]
       (ServiceObject (assembleBaseService node)) StatePresent = (res1, None)"
    and "ReconcileResource_answer r
       [GetCall (NamespacedName req),
      ReconcileResourceCall (ServiceObject (assembleBaseService node)) StatePresent]
       (ServiceObject (assembleInternalService node)) StatePresent = (res2, None)"
    and "ReconcileResource_answer r
       [GetCall (NamespacedName req),
      ReconcileResourceCall (ServiceObject (assembleBaseService node)) StatePresent,
      ReconcileResourceCall (ServiceObject (assembleInternalService node)) StatePresent]
       (ServiceObject (assembleHeadlessService node)) StatePresent = (res, Some err)"
  shows "Reconcile pq r req =
    (Returned (case res of None \<Rightarrow> Result0 | Some res \<Rightarrow> res)
       (Some (OtherError (''ChiaNodeReconciler ChiaNode='' @ String (NamespacedName req) @
          '' encountered error reconciling node headless Service: '' @ Error err))),
     [GetCall (NamespacedName req),
      ReconcileResourceCall (ServiceObject (assembleBaseService node)) StatePresent,
      ReconcileResourceCall (ServiceObject (assembleInternalService node)) StatePresent,
      ReconcileResourceCall (ServiceObject (assembleHeadlessService node)) StatePresent])"
  using assms
  by (simp add: Reconcile_def Get_def reconcileService_def reconcileStatefulset_def
        ReconcileResource_def StatusUpdate_def)

lemma Reconcile_fail4:
  assumes "Get_answer r (NamespacedName req) = Inr node"
    and "ReconcileResource_answer r
       [GetCall (NamespacedName req)]
       (ServiceObject (assembleBaseService node)) StatePresent = (res1, None)"
    and "ReconcileResource_answer r
       [GetCall (NamespacedName req),
      ReconcileResourceCall (ServiceObject (assembleBaseService node)) StatePresent]
       (ServiceObject (assembleInternalService node)) StatePresent = (res2, None)"
    and "ReconcileResource_answer r
       [GetCall (NamespacedName req),
      ReconcileResourceCall (ServiceObject (assembleBaseService node)) StatePresent,
      ReconcileResourceCall (ServiceObject (assembleInternalService node)) StatePresent]
       (ServiceObject (assembleHeadlessService node)) StatePresent = (res3, None)"
    and "ReconcileResource_answer r
       [GetCall (NamespacedName req),
      ReconcileResourceCall (ServiceObject (assembleBaseService node)) StatePresent,
      ReconcileResourceCall (ServiceObject (assembleInternalService node)) StatePresent,
      ReconcileResourceCall (ServiceObject (assembleHeadlessService node)) StatePresent]
       (ServiceObject (assembleChiaExporterService node)) StatePresent = (res, Some err)"
  shows "Reconcile pq r req =
    (Returned (case res of None \<Rightarrow> Result0 | Some res \<Rightarrow> res)
       (Some (OtherError (''ChiaNodeReconciler ChiaNode='' @ String (NamespacedName req) @
          '' encountered error reconciling node chia-exporter Service: '' @ Error err))),
     [GetCall (NamespacedName req),
      ReconcileResourceCall (ServiceObject (assembleBaseService node)) StatePresent,
      ReconcileResourceCall (ServiceObject (assembleInternalService node)) StatePresent,
      ReconcileResourceCall (ServiceObject (assembleHeadlessService node)) StatePresent,
      ReconcileResourceCall (ServiceObject (assembleChiaExporterService node)) StatePresent])"
  using assms
  by (simp add: Reconcile_def Get_def reconcileService_def reconcileStatefulset_def
        ReconcileResource_def StatusUpdate_def)

lemma Reconcile_fail5:
  assumes "Get_answer r (NamespacedName req) = Inr node"
    and "ReconcileResource_answer r
       [GetCall (NamespacedName req)]
       (ServiceObject (assembleBaseService node)) StatePresent = (res1, None)"
    and "ReconcileResource_answer r
       [GetCall (NamespacedName req),
      ReconcileResourceCall (ServiceObject (assembleBaseService node)) StatePresent]
       (ServiceObject (assembleInternalService node)) StatePresent = (res2, None)"
    and "ReconcileResource_answer r
       [GetCall (NamespacedName req),
      ReconcileResourceCall (ServiceObject (assembleBaseService node)) StatePresent,
      ReconcileResourceCall (ServiceObject (assembleInternalService node)) StatePresent]
       (ServiceObject (assembleHeadlessService node)) StatePresent = (res3, None)"
    and "ReconcileResource_answer r
       [GetCall (NamespacedName req),
      ReconcileResourceCall (ServiceObject (assembleBaseService node)) StatePresent,
      ReconcileResourceCall (ServiceObject (assembleInternalService node)) StatePresent,
      ReconcileResourceCall (ServiceObject (assembleHeadlessService node)) StatePresent]
       (ServiceObject (assembleChiaExporterService node)) StatePresent = (res4, None)"
    and "assembleStatefulset pq node = Inr stateful"
    and "ReconcileResource_answer r
       [GetCall (NamespacedName req),
      ReconcileResourceCall (ServiceObject (assembleBaseService node)) StatePresent,
      ReconcileResourceCall (ServiceObject (assembleInternalService node)) StatePresent,
      ReconcileResourceCall (ServiceObject (assembleHeadlessService node)) StatePresent,
      ReconcileResourceCall (ServiceObject (assembleChiaExporterService node)) StatePresent]
       (StatefulSetObject stateful) StatePresent = (res, Some err)"
  shows "Reconcile pq r req =
    (Returned (case res of None \<Rightarrow> Result0 | Some res \<Rightarrow> res)
       (Some (OtherError (''ChiaNodeReconciler ChiaNode='' @ String (NamespacedName req) @
          '' encountered error reconciling node StatefulSet: '' @ Error err))),
     [GetCall (NamespacedName req),
      ReconcileResourceCall (ServiceObject (assembleBaseService node)) StatePresent,
      ReconcileResourceCall (ServiceObject (assembleInternalService node)) StatePresent,
      ReconcileResourceCall (ServiceObject (assembleHeadlessService node)) StatePresent,
      ReconcileResourceCall (ServiceObject (assembleChiaExporterService node)) StatePresent,
      ReconcileResourceCall (StatefulSetObject stateful) StatePresent])"
  using assms
  by (simp add: Reconcile_def Get_def reconcileService_def reconcileStatefulset_def
        ReconcileResource_def StatusUpdate_def)

lemma Reconcile_panic:
  assumes "Get_answer r (NamespacedName req) = Inr node"
    and "ReconcileResource_answer r
       [GetCall (NamespacedName req)]
       (ServiceObject (assembleBaseService node)) StatePresent = (res1, None)"
    and "ReconcileResource_answer r
       [GetCall (NamespacedName req),
      ReconcileResourceCall (ServiceObject (assembleBaseService node)) StatePresent]
       (ServiceObject (assembleInternalService node)) StatePresent = (res2, None)"
    and "ReconcileResource_answer r
       [GetCall (NamespacedName req),
      ReconcileResourceCall (ServiceObject (assembleBaseService node)) StatePresent,
      ReconcileResourceCall (ServiceObject (assembleInternalService node)) StatePresent]
       (ServiceObject (assembleHeadlessService node)) StatePresent = (res3, None)"
    and "ReconcileResource_answer r
       [GetCall (NamespacedName req),
      ReconcileResourceCall (ServiceObject (assembleBaseService node)) StatePresent,
      ReconcileResourceCall (ServiceObject (assembleInternalService node)) StatePresent,
      ReconcileResourceCall (ServiceObject (assembleHeadlessService node)) StatePresent]
       (ServiceObject (assembleChiaExporterService node)) StatePresent = (res4, None)"
    and "assembleStatefulset pq node = Inl p"
  shows "Reconcile pq r req =
    (Panicked p,
     [GetCall (NamespacedName req),
      ReconcileResourceCall (ServiceObject (assembleBaseService node)) StatePresent,
      ReconcileResourceCall (ServiceObject (assembleInternalService node)) StatePresent,
      ReconcileResourceCall (ServiceObject (assembleHeadlessService node)) StatePresent,
      ReconcileResourceCall (ServiceObject (assembleChiaExporterService node)) StatePresent])"
  using assms
  by (simp add: Reconcile_def Get_def reconcileService_def reconcileStatefulset_def
        ReconcileResource_def StatusUpdate_def)

lemma Reconcile_converged:
  assumes "Get_answer r (NamespacedName req) = Inr node"
    and "ReconcileResource_answer r
       [GetCall (NamespacedName req)]
       (ServiceObject (assembleBaseService node)) StatePresent = (res1, None)"
    and "ReconcileResource_answer r
       [GetCall (NamespacedName req),
      ReconcileResourceCall (ServiceObject (assembleBaseService node)) StatePresent]
       (ServiceObject (assembleInternalService node)) StatePresent = (res2, None)"
    and "ReconcileResource_answer r
       [GetCall (NamespacedName req),
      ReconcileResourceCall (ServiceObject (assembleBaseService node)) StatePresent,
      ReconcileResourceCall (ServiceObject (assembleInternalService node)) StatePresent]
       (ServiceObject (assembleHeadlessService node)) StatePresent = (res3, None)"
    and "ReconcileResource_answer r
       [GetCall (NamespacedName req),
      ReconcileResourceCall (ServiceObject (assembleBaseService node)) StatePresent,
      ReconcileResourceCall (ServiceObject (assembleInternalService node)) StatePresent,
      ReconcileResourceCall (ServiceObject (assembleHeadlessService node)) StatePresent]
       (ServiceObject (assembleChiaExporterService node)) StatePresent = (res4, None)"
    and "assembleStatefulset pq node = Inr stateful"
    and "ReconcileResource_answer r
       [GetCall (NamespacedName req),
      ReconcileResourceCall (ServiceObject (assembleBaseService node)) StatePresent,
      ReconcileResourceCall (ServiceObject (assembleInternalService node)) StatePresent,
      ReconcileResourceCall (ServiceObject (assembleHeadlessService node)) StatePresent,
      ReconcileResourceCall (ServiceObject (assembleChiaExporterService node)) StatePresent]
       (StatefulSetObject stateful) StatePresent = (res5, None)"
    and "StatusUpdate_answer r
       [GetCall (NamespacedName req),
      ReconcileResourceCall (ServiceObject (assembleBaseService node)) StatePresent,
      ReconcileResourceCall (ServiceObject (assembleInternalService node)) StatePresent,
      ReconcileResourceCall (ServiceObject (assembleHeadlessService node)) StatePresent,
      ReconcileResourceCall (ServiceObject (assembleChiaExporterService node)) StatePresent,
      ReconcileResourceCall (StatefulSetObject stateful) StatePresent]
       (node\<lparr>Status := (Status node)\<lparr>Ready := True\<rparr>\<rparr>) = upd"
  shows "Reconcile pq r req =
    (Returned Result0 upd,
     [GetCall (NamespacedName req),
      ReconcileResourceCall (ServiceObject (assembleBaseService node)) StatePresent,
      ReconcileResourceCall (ServiceObject (assembleInternalService node)) StatePresent,
      ReconcileResourceCall (ServiceObject (assembleHeadlessService node)) StatePresent,
      ReconcileResourceCall (ServiceObject (assembleChiaExporterService node)) StatePresent,
      ReconcileResourceCall (StatefulSetObject stateful) StatePresent] @
     [StatusUpdateCall (node\<lparr>Status := (Status node)\<lparr>Ready := True\<rparr>\<rparr>)])"
  using assms
  by (cases upd)
     (simp_all add: Reconcile_def Get_def reconcileService_def reconcileStatefulset_def
        ReconcileResource_def StatusUpdate_def)

lemma Reconcile_fetch_error:
  assumes "Get_answer r (NamespacedName req) = Inl err"
  shows "Reconcile pq r req =
    (Returned Result0 (if IsNotFound err then None else Some err), [GetCall (NamespacedName req)])"
  using assms by (simp add: Reconcile_def Get_def IgnoreNotFound_def)

lemma healthy_all:
  "Get_answer (healthy node) key = Inr node"
  "ReconcileResource_answer (healthy node) tr obj desired = (None, None)"
  "StatusUpdate_answer (healthy node) tr n = None"
  by (simp_all add: healthy_def)

section \<open>Claims\<close>

text \<open>
  C6.  For every user-supplied list of additional label maps, also one that sets a reserved
  identity key such as \<open>app.kubernetes.io/managed-by\<close>, the synthesized label set holds the
  fixed identity values under the four reserved keys: the result is the user's labels with
  the identity entries laid on top.
\<close>

theorem getCommonLabels_identity_on_top:
  "ChiaNodeReconciler_getCommonLabels node additionalLabels =
     foldl (++) Map.empty additionalLabels ++
       [''app.kubernetes.io/instance'' \<mapsto> ObjectMeta.Name (ChiaNode.ObjectMeta node),
        ''chianode-owner'' \<mapsto> ObjectMeta.Name (ChiaNode.ObjectMeta node),
        ''app.kubernetes.io/name'' \<mapsto> ''chia'',
        ''app.kubernetes.io/managed-by'' \<mapsto> ''chia-operator'']
   \<and> ChiaNodeReconciler_getCommonLabels node additionalLabels ''app.kubernetes.io/instance''
        = Some (ObjectMeta.Name (ChiaNode.ObjectMeta node))
   \<and> ChiaNodeReconciler_getCommonLabels node additionalLabels ''chianode-owner''
        = Some (ObjectMeta.Name (ChiaNode.ObjectMeta node))
   \<and> ChiaNodeReconciler_getCommonLabels node additionalLabels ''app.kubernetes.io/name''
        = Some ''chia''
   \<and> ChiaNodeReconciler_getCommonLabels node additionalLabels ''app.kubernetes.io/managed-by''
        = Some ''chia-operator''"
  by (simp add: ChiaNodeReconciler_getCommonLabels_def getCommonLabels_def)

text \<open>An attempt to take over \<open>managed-by\<close> is overwritten.\<close>

theorem getCommonLabels_identity_on_top_witness:
  "ChiaNodeReconciler_getCommonLabels alpha
     [[''team'' \<mapsto> ''farm'', ''app.kubernetes.io/managed-by'' \<mapsto> ''somebody-else'']]
     ''app.kubernetes.io/managed-by'' = Some ''chia-operator''
   \<and> ChiaNodeReconciler_getCommonLabels alpha
     [[''team'' \<mapsto> ''farm'', ''app.kubernetes.io/managed-by'' \<mapsto> ''somebody-else'']]
     ''app.kubernetes.io/instance'' = Some ''alpha''"
  using getCommonLabels_identity_on_top [of alpha
     "[[''team'' \<mapsto> ''farm'', ''app.kubernetes.io/managed-by'' \<mapsto> ''somebody-else'']]"]
  by (simp add: alpha_def ObjectMeta0_def)

text \<open>
  C5.  The primary peer port depends on the testnet flag alone: it is the testnet constant
  58444 when the flag is set and true, and the mainnet constant 8444 when it is false or
  unset; no other field of the Spec enters.  The daemon port is 55400 and the rpc port
  8555 whatever the flag.  The Services that expose these ports and the chia container
  carry exactly these three.
\<close>

theorem port_policy:
  "getFullNodePort node =
     (if Testnet (ChiaConfig (ChiaNode.Spec node)) = Some True then testnetNodePort
      else mainnetNodePort)
   \<and> sint testnetNodePort = 58444 \<and> sint mainnetNodePort = 8444
   \<and> sint daemonPort = 55400 \<and> sint nodeRPCPort = 8555
   \<and> (Testnet (ChiaConfig (ChiaNode.Spec node)) = Testnet (ChiaConfig (ChiaNode.Spec node'))
        \<longrightarrow> getFullNodePort node = getFullNodePort node')
   \<and> map (\<lambda>p. (ServicePort.Name p, ServicePort.Port p))
         (ServiceSpec.Ports (Service.Spec (assembleBaseService node))) =
        [(''daemon'', daemonPort), (''peers'', getFullNodePort node), (''rpc'', nodeRPCPort)]
   \<and> map (\<lambda>p. (ServicePort.Name p, ServicePort.Port p))
         (ServiceSpec.Ports (Service.Spec (assembleInternalService node))) =
        [(''daemon'', daemonPort), (''peers'', getFullNodePort node), (''rpc'', nodeRPCPort)]
   \<and> map (\<lambda>p. (ServicePort.Name p, ServicePort.Port p))
         (ServiceSpec.Ports (Service.Spec (assembleHeadlessService node))) =
        [(''daemon'', daemonPort), (''peers'', getFullNodePort node), (''rpc'', nodeRPCPort)]
   \<and> (assembleStatefulset pq node = Inr st \<longrightarrow>
        map (\<lambda>p. (ContainerPort.Name p, ContainerPort p))
          (Container.Ports (hd (Containers (PodTemplateSpec.Spec (Template (StatefulSet.Spec st)))))) =
        [(''daemon'', daemonPort), (''peers'', getFullNodePort node), (''rpc'', nodeRPCPort)])"
proof (intro conjI impI)
  show "getFullNodePort node =
     (if Testnet (ChiaConfig (ChiaNode.Spec node)) = Some True then testnetNodePort
      else mainnetNodePort)"
    by (simp add: getFullNodePort_def split: option.splits)
  show "getFullNodePort node = getFullNodePort node'"
    if "Testnet (ChiaConfig (ChiaNode.Spec node)) = Testnet (ChiaConfig (ChiaNode.Spec node'))"
    using that by (simp add: getFullNodePort_def)
  show "map (\<lambda>p. (ContainerPort.Name p, ContainerPort p))
          (Container.Ports (hd (Containers (PodTemplateSpec.Spec (Template (StatefulSet.Spec st)))))) =
        [(''daemon'', daemonPort), (''peers'', getFullNodePort node), (''rpc'', nodeRPCPort)]"
    if "assembleStatefulset pq node = Inr st"
    by (simp add: assembleStatefulset_Inr(8) [OF that])
qed (simp_all add: testnetNodePort_def mainnetNodePort_def daemonPort_def nodeRPCPort_def
       assembleBaseService_def assembleInternalService_def assembleHeadlessService_def
       ServiceSpec0_def)

text \<open>On testnet the peer port is 58444, in the Services and in the chia container;
  otherwise 8444.\<close>

theorem port_policy_witness:
  "sint (getFullNodePort (withTestnet (Some True) alpha)) = 58444
   \<and> sint (getFullNodePort (withTestnet (Some False) alpha)) = 8444
   \<and> sint (getFullNodePort alpha) = 8444
   \<and> getFullNodePort (withTestnet None alpha) = getFullNodePort alpha
   \<and> \<not> isl (assembleStatefulset anyQuantity (withTestnet (Some True) alpha))
   \<and> map (\<lambda>p. (ContainerPort.Name p, sint (ContainerPort p)))
        (Container.Ports (hd (Containers (PodTemplateSpec.Spec (Template (StatefulSet.Spec
           (projr (assembleStatefulset anyQuantity (withTestnet (Some True) alpha)))))))))
      = [(''daemon'', 55400), (''peers'', 58444), (''rpc'', 8555)]"
proof -
  let ?node = "withTestnet (Some True) alpha"
  have ok: "\<not> isl (assembleStatefulset anyQuantity ?node)"
    by (simp add: assembleStatefulset_isl getChiaVolumesAndTemplates_isl withTestnet_def alpha_def)
  then have eq: "assembleStatefulset anyQuantity ?node =
      Inr (projr (assembleStatefulset anyQuantity ?node))"
    by (cases "assembleStatefulset anyQuantity ?node") simp_all
  note claim = port_policy [where pq = anyQuantity and node = ?node and node' = alpha
      and st = "projr (assembleStatefulset anyQuantity ?node)"]
  from claim eq
  have ports: "map (\<lambda>p. (ContainerPort.Name p, ContainerPort p))
        (Container.Ports (hd (Containers (PodTemplateSpec.Spec (Template (StatefulSet.Spec
           (projr (assembleStatefulset anyQuantity ?node))))))))
      = [(''daemon'', daemonPort), (''peers'', getFullNodePort ?node), (''rpc'', nodeRPCPort)]"
    by blast
  have t: "Testnet (ChiaConfig (ChiaNode.Spec ?node)) = Some True"
    by (simp add: withTestnet_def)
  from claim t have p: "getFullNodePort ?node = testnetNodePort"
    and c: "sint testnetNodePort = 58444" "sint daemonPort = 55400" "sint nodeRPCPort = 8555"
    by simp_all
  have "map (\<lambda>p. (ContainerPort.Name p, sint (ContainerPort p)))
        (Container.Ports (hd (Containers (PodTemplateSpec.Spec (Template (StatefulSet.Spec
           (projr (assembleStatefulset anyQuantity ?node))))))))
      = map (\<lambda>(n, p). (n, sint p)) (map (\<lambda>p. (ContainerPort.Name p, ContainerPort p))
        (Container.Ports (hd (Containers (PodTemplateSpec.Spec (Template (StatefulSet.Spec
           (projr (assembleStatefulset anyQuantity ?node)))))))))"
    by (simp add: comp_def)
  also have "\<dots> = [(''daemon'', 55400), (''peers'', 58444), (''rpc'', 8555)]"
    unfolding ports by (simp add: p c)
  finally have cp: "map (\<lambda>p. (ContainerPort.Name p, sint (ContainerPort p)))
        (Container.Ports (hd (Containers (PodTemplateSpec.Spec (Template (StatefulSet.Spec
           (projr (assembleStatefulset anyQuantity ?node))))))))
      = [(''daemon'', 55400), (''peers'', 58444), (''rpc'', 8555)]" .
  have rest: "sint (getFullNodePort (withTestnet (Some True) alpha)) = 58444
   \<and> sint (getFullNodePort (withTestnet (Some False) alpha)) = 8444
   \<and> sint (getFullNodePort alpha) = 8444
   \<and> getFullNodePort (withTestnet None alpha) = getFullNodePort alpha"
    using port_policy [of "withTestnet (Some True) alpha" alpha]
      port_policy [of "withTestnet (Some False) alpha" alpha]
      port_policy [of "withTestnet None alpha" alpha]
      port_policy [of alpha alpha]
    by (simp add: withTestnet_def alpha_def)
  from rest ok cp show ?thesis by simp
qed

text \<open>
  C4.  The environment of the chia container begins with the four entries \<open>service\<close>,
  \<open>CHIA_ROOT\<close>, \<open>keys\<close>, \<open>ca\<close>, in this order.  After them come, in this order and only
  when the optional field is set, \<open>testnet\<close> (for a flag that is set and true), \<open>TZ\<close> and
  \<open>log_level\<close>; an unset field adds no entry.  With the three fields unset the list is the
  four mandatory entries, and setting testnet to true adds the one entry \<open>testnet = true\<close>
  after them.
\<close>

theorem getChiaNodeEnv_entries:
  "getChiaNodeEnv node =
     [\<lparr>EnvVar.Name = ''service'', Value = ''node''\<rparr>,
      \<lparr>EnvVar.Name = ''CHIA_ROOT'', Value = ''/chia-data''\<rparr>,
      \<lparr>EnvVar.Name = ''keys'', Value = ''none''\<rparr>,
      \<lparr>EnvVar.Name = ''ca'', Value = ''/chia-ca''\<rparr>]
     @ (if Testnet (ChiaConfig (ChiaNode.Spec node)) = Some True
        then [\<lparr>EnvVar.Name = ''testnet'', Value = ''true''\<rparr>] else [])
     @ (case Timezone (ChiaConfig (ChiaNode.Spec node)) of
          Some tz \<Rightarrow> [\<lparr>EnvVar.Name = ''TZ'', Value = tz\<rparr>] | None \<Rightarrow> [])
     @ (case LogLevel (ChiaConfig (ChiaNode.Spec node)) of
          Some lvl \<Rightarrow> [\<lparr>EnvVar.Name = ''log_level'', Value = lvl\<rparr>] | None \<Rightarrow> [])
   \<and> take 4 (getChiaNodeEnv node) =
     [\<lparr>EnvVar.Name = ''service'', Value = ''node''\<rparr>,
      \<lparr>EnvVar.Name = ''CHIA_ROOT'', Value = ''/chia-data''\<rparr>,
      \<lparr>EnvVar.Name = ''keys'', Value = ''none''\<rparr>,
      \<lparr>EnvVar.Name = ''ca'', Value = ''/chia-ca''\<rparr>]
   \<and> EnvVar.Name ` set (drop 4 (getChiaNodeEnv node)) \<subseteq> {''testnet'', ''TZ'', ''log_level''}
   \<and> (''testnet'' \<in> EnvVar.Name ` set (getChiaNodeEnv node) \<longrightarrow>
        Testnet (ChiaConfig (ChiaNode.Spec node)) \<noteq> None)
   \<and> (''TZ'' \<in> EnvVar.Name ` set (getChiaNodeEnv node) \<longrightarrow>
        Timezone (ChiaConfig (ChiaNode.Spec node)) \<noteq> None)
   \<and> (''log_level'' \<in> EnvVar.Name ` set (getChiaNodeEnv node) \<longrightarrow>
        LogLevel (ChiaConfig (ChiaNode.Spec node)) \<noteq> None)
   \<and> (Testnet (ChiaConfig (ChiaNode.Spec node)) = None \<and>
      Timezone (ChiaConfig (ChiaNode.Spec node)) = None \<and>
      LogLevel (ChiaConfig (ChiaNode.Spec node)) = None \<longrightarrow>
        getChiaNodeEnv node =
          [\<lparr>EnvVar.Name = ''service'', Value = ''node''\<rparr>,
           \<lparr>EnvVar.Name = ''CHIA_ROOT'', Value = ''/chia-data''\<rparr>,
           \<lparr>EnvVar.Name = ''keys'', Value = ''none''\<rparr>,
           \<lparr>EnvVar.Name = ''ca'', Value = ''/chia-ca''\<rparr>])
   \<and> getChiaNodeEnv (withTestnet (Some True) node) =
        take 4 (getChiaNodeEnv (withTestnet None node))
        @ [\<lparr>EnvVar.Name = ''testnet'', Value = ''true''\<rparr>]
        @ drop 4 (getChiaNodeEnv (withTestnet None node))
   \<and> (assembleStatefulset pq node = Inr st \<longrightarrow>
        Container.Env (hd (Containers (PodTemplateSpec.Spec (Template (StatefulSet.Spec st))))) =
          getChiaNodeEnv node)"
proof (intro conjI impI)
  show "Container.Env (hd (Containers (PodTemplateSpec.Spec (Template (StatefulSet.Spec st))))) =
          getChiaNodeEnv node"
    if "assembleStatefulset pq node = Inr st"
    by (rule assembleStatefulset_Inr(7) [OF that])
qed (auto simp add: getChiaNodeEnv_eq withTestnet_def split: option.splits if_splits intro: sym)

text \<open>The node \<open>alpha\<close> sets none of the three fields; with testnet set to true one entry
  is added, with testnet set to false none.\<close>

theorem getChiaNodeEnv_entries_witness:
  "getChiaNodeEnv alpha =
     [\<lparr>EnvVar.Name = ''service'', Value = ''node''\<rparr>,
      \<lparr>EnvVar.Name = ''CHIA_ROOT'', Value = ''/chia-data''\<rparr>,
      \<lparr>EnvVar.Name = ''keys'', Value = ''none''\<rparr>,
      \<lparr>EnvVar.Name = ''ca'', Value = ''/chia-ca''\<rparr>]
   \<and> getChiaNodeEnv (withTestnet (Some True) alpha) =
     [\<lparr>EnvVar.Name = ''service'', Value = ''node''\<rparr>,
      \<lparr>EnvVar.Name = ''CHIA_ROOT'', Value = ''/chia-data''\<rparr>,
      \<lparr>EnvVar.Name = ''keys'', Value = ''none''\<rparr>,
      \<lparr>EnvVar.Name = ''ca'', Value = ''/chia-ca''\<rparr>,
      \<lparr>EnvVar.Name = ''testnet'', Value = ''true''\<rparr>]
   \<and> getChiaNodeEnv (withTestnet (Some False) alpha) = getChiaNodeEnv alpha
   \<and> \<not> isl (assembleStatefulset anyQuantity (withTestnet (Some True) alpha))
   \<and> Container.Env (hd (Containers (PodTemplateSpec.Spec (Template (StatefulSet.Spec
        (projr (assembleStatefulset anyQuantity (withTestnet (Some True) alpha)))))))) =
     [\<lparr>EnvVar.Name = ''service'', Value = ''node''\<rparr>,
      \<lparr>EnvVar.Name = ''CHIA_ROOT'', Value = ''/chia-data''\<rparr>,
      \<lparr>EnvVar.Name = ''keys'', Value = ''none''\<rparr>,
      \<lparr>EnvVar.Name = ''ca'', Value = ''/chia-ca''\<rparr>,
      \<lparr>EnvVar.Name = ''testnet'', Value = ''true''\<rparr>]"
proof -
  let ?node = "withTestnet (Some True) alpha"
  have ok: "\<not> isl (assembleStatefulset anyQuantity ?node)"
    by (simp add: assembleStatefulset_isl getChiaVolumesAndTemplates_isl withTestnet_def alpha_def)
  then have eq: "assembleStatefulset anyQuantity ?node =
      Inr (projr (assembleStatefulset anyQuantity ?node))"
    by (cases "assembleStatefulset anyQuantity ?node") simp_all
  from getChiaNodeEnv_entries [where pq = anyQuantity and node = ?node
      and st = "projr (assembleStatefulset anyQuantity ?node)"] eq
  have env: "Container.Env (hd (Containers (PodTemplateSpec.Spec (Template (StatefulSet.Spec
        (projr (assembleStatefulset anyQuantity ?node))))))) = getChiaNodeEnv ?node"
    by blast
  have lists: "getChiaNodeEnv alpha =
     [\<lparr>EnvVar.Name = ''service'', Value = ''node''\<rparr>,
      \<lparr>EnvVar.Name = ''CHIA_ROOT'', Value = ''/chia-data''\<rparr>,
      \<lparr>EnvVar.Name = ''keys'', Value = ''none''\<rparr>,
      \<lparr>EnvVar.Name = ''ca'', Value = ''/chia-ca''\<rparr>]
   \<and> getChiaNodeEnv (withTestnet (Some True) alpha) =
     [\<lparr>EnvVar.Name = ''service'', Value = ''node''\<rparr>,
      \<lparr>EnvVar.Name = ''CHIA_ROOT'', Value = ''/chia-data''\<rparr>,
      \<lparr>EnvVar.Name = ''keys'', Value = ''none''\<rparr>,
      \<lparr>EnvVar.Name = ''ca'', Value = ''/chia-ca''\<rparr>,
      \<lparr>EnvVar.Name = ''testnet'', Value = ''true''\<rparr>]
   \<and> getChiaNodeEnv (withTestnet (Some False) alpha) = getChiaNodeEnv alpha"
    using getChiaNodeEnv_entries [of alpha] getChiaNodeEnv_entries [of "withTestnet None alpha"]
      getChiaNodeEnv_entries [of "withTestnet (Some False) alpha"]
    by (simp add: withTestnet_def alpha_def)
  from lists ok show ?thesis unfolding env by simp
qed

text \<open>
  C8, as amended.  Every child resource that the pass submits (each of the four Services and
  the StatefulSet) carries exactly one owner reference; it has \<open>controller = true\<close> and
  names the Spec's API version, kind, name and UID.  A volume claim template, which is
  synthesized inside the StatefulSet and never submitted on its own, carries a name and no
  owner reference.
\<close>

theorem owner_references_of_synthesized_resources:
  "getOwnerReference node =
     [\<lparr>OwnerReference.APIVersion = TypeMeta.APIVersion (ChiaNode.TypeMeta node),
       OwnerReference.Kind = TypeMeta.Kind (ChiaNode.TypeMeta node),
       OwnerReference.Name = ObjectMeta.Name (ChiaNode.ObjectMeta node),
       OwnerReference.UID = ObjectMeta.UID (ChiaNode.ObjectMeta node),
       Controller = Some True\<rparr>]
   \<and> OwnerReferences (Service.ObjectMeta (assembleBaseService node)) = getOwnerReference node
   \<and> OwnerReferences (Service.ObjectMeta (assembleInternalService node)) = getOwnerReference node
   \<and> OwnerReferences (Service.ObjectMeta (assembleHeadlessService node)) = getOwnerReference node
   \<and> OwnerReferences (Service.ObjectMeta (assembleChiaExporterService node)) = getOwnerReference node
   \<and> (assembleStatefulset pq node = Inr st \<longrightarrow>
        OwnerReferences (StatefulSet.ObjectMeta st) = getOwnerReference node)
   \<and> (getChiaVolumesAndTemplates pq node = Inr (vols, vcts) \<longrightarrow>
        (\<forall>c \<in> set vcts. OwnerReferences (PersistentVolumeClaim.ObjectMeta c) = []))
   \<and> (assembleStatefulset pq node = Inr st \<longrightarrow>
        (\<forall>c \<in> set (VolumeClaimTemplates (StatefulSet.Spec st)).
           OwnerReferences (PersistentVolumeClaim.ObjectMeta c) = []))"
proof (intro conjI impI ballI)
  show "OwnerReferences (StatefulSet.ObjectMeta st) = getOwnerReference node"
    if "assembleStatefulset pq node = Inr st"
    by (simp add: assembleStatefulset_Inr(1) [OF that])
  show "OwnerReferences (PersistentVolumeClaim.ObjectMeta c) = []"
    if "getChiaVolumesAndTemplates pq node = Inr (vols, vcts)" and "c \<in> set vcts" for c
    using that by (rule volume_claim_templates_unowned)
  show "OwnerReferences (PersistentVolumeClaim.ObjectMeta c) = []"
    if "assembleStatefulset pq node = Inr st"
      and "c \<in> set (VolumeClaimTemplates (StatefulSet.Spec st))" for c
    using assembleStatefulset_Inr(5) [OF that(1)] that(2)
    by (rule volume_claim_templates_unowned)
qed (simp_all add: getOwnerReference_def controllerOwner_def assembleBaseService_def
       assembleInternalService_def assembleHeadlessService_def assembleChiaExporterService_def)

text \<open>With a claim descriptor for \<open>100Gi\<close>: the StatefulSet and the headless Service name the
  owner \<open>alpha\<close>, the one claim template \<open>chiaroot\<close> names none.\<close>

theorem owner_references_of_synthesized_resources_witness:
  "\<not> isl (assembleStatefulset anyQuantity
       (withChiaRoot \<lparr>PersistentVolumeClaim = Some claim100Gi, HostPathVolume = None\<rparr> alpha))
   \<and> OwnerReferences (StatefulSet.ObjectMeta (projr (assembleStatefulset anyQuantity
       (withChiaRoot \<lparr>PersistentVolumeClaim = Some claim100Gi, HostPathVolume = None\<rparr> alpha)))) =
     [\<lparr>OwnerReference.APIVersion = ''k8s.chia.net/v1'', OwnerReference.Kind = ''ChiaNode'',
       OwnerReference.Name = ''alpha'', OwnerReference.UID = ''uid-1'', Controller = Some True\<rparr>]
   \<and> OwnerReferences (Service.ObjectMeta (assembleHeadlessService
       (withChiaRoot \<lparr>PersistentVolumeClaim = Some claim100Gi, HostPathVolume = None\<rparr> alpha))) =
     [\<lparr>OwnerReference.APIVersion = ''k8s.chia.net/v1'', OwnerReference.Kind = ''ChiaNode'',
       OwnerReference.Name = ''alpha'', OwnerReference.UID = ''uid-1'', Controller = Some True\<rparr>]
   \<and> map ObjectMeta.Name (map PersistentVolumeClaim.ObjectMeta (VolumeClaimTemplates (StatefulSet.Spec
       (projr (assembleStatefulset anyQuantity
         (withChiaRoot \<lparr>PersistentVolumeClaim = Some claim100Gi, HostPathVolume = None\<rparr> alpha)))))) =
     [''chiaroot'']
   \<and> map OwnerReferences (map PersistentVolumeClaim.ObjectMeta (VolumeClaimTemplates (StatefulSet.Spec
       (projr (assembleStatefulset anyQuantity
         (withChiaRoot \<lparr>PersistentVolumeClaim = Some claim100Gi, HostPathVolume = None\<rparr> alpha)))))) =
     [[]]"
proof -
  let ?node = "withChiaRoot \<lparr>PersistentVolumeClaim = Some claim100Gi, HostPathVolume = None\<rparr> alpha"
  let ?st = "projr (assembleStatefulset anyQuantity ?node)"
  have ok: "\<not> isl (assembleStatefulset anyQuantity ?node)"
    by (simp add: assembleStatefulset_isl getChiaVolumesAndTemplates_isl withChiaRoot_def
          alpha_def claim100Gi_def ParseQuantity_def anyQuantity_def)
  then have eq: "assembleStatefulset anyQuantity ?node = Inr ?st"
    by (cases "assembleStatefulset anyQuantity ?node") simp_all
  have vs: "getChiaVolumesAndTemplates anyQuantity ?node =
      Inr (Volumes (PodTemplateSpec.Spec (Template (StatefulSet.Spec ?st))),
           VolumeClaimTemplates (StatefulSet.Spec ?st))"
    by (rule assembleStatefulset_Inr(5) [OF eq])
  have gv: "getChiaVolumesAndTemplates anyQuantity ?node =
      Inr ([Volume0\<lparr>Volume.Name := ''secret-ca'', Secret := Some \<lparr>SecretName = ''chiaca-secret''\<rparr>\<rparr>],
           [\<lparr>PersistentVolumeClaim.ObjectMeta = ObjectMeta0\<lparr>ObjectMeta.Name := ''chiaroot''\<rparr>,
             PersistentVolumeClaim.Spec =
               \<lparr>AccessModes = [''ReadWriteOnce''], StorageClassName = Some ''standard'',
                PersistentVolumeClaimSpec.Resources =
                  ResourceRequirements0\<lparr>Requests := [''storage'' \<mapsto> ''100Gi'']\<rparr>\<rparr>\<rparr>])"
    by (simp add: getChiaVolumesAndTemplates_def MustParse_def ParseQuantity_def anyQuantity_def
          withChiaRoot_def alpha_def claim100Gi_def Let_def)
  have "Inr (Volumes (PodTemplateSpec.Spec (Template (StatefulSet.Spec ?st))),
             VolumeClaimTemplates (StatefulSet.Spec ?st)) =
      (Inr ([Volume0\<lparr>Volume.Name := ''secret-ca'', Secret := Some \<lparr>SecretName = ''chiaca-secret''\<rparr>\<rparr>],
           [\<lparr>PersistentVolumeClaim.ObjectMeta = ObjectMeta0\<lparr>ObjectMeta.Name := ''chiaroot''\<rparr>,
             PersistentVolumeClaim.Spec =
               \<lparr>AccessModes = [''ReadWriteOnce''], StorageClassName = Some ''standard'',
                PersistentVolumeClaimSpec.Resources =
                  ResourceRequirements0\<lparr>Requests := [''storage'' \<mapsto> ''100Gi'']\<rparr>\<rparr>\<rparr>])
        :: panic + Volume list \<times> string PersistentVolumeClaim list)"
    by (rule trans [OF vs [symmetric] gv])
  then have vct: "VolumeClaimTemplates (StatefulSet.Spec ?st) =
      [\<lparr>PersistentVolumeClaim.ObjectMeta = ObjectMeta0\<lparr>ObjectMeta.Name := ''chiaroot''\<rparr>,
        PersistentVolumeClaim.Spec =
          \<lparr>AccessModes = [''ReadWriteOnce''], StorageClassName = Some ''standard'',
           PersistentVolumeClaimSpec.Resources =
             ResourceRequirements0\<lparr>Requests := [''storage'' \<mapsto> ''100Gi'']\<rparr>\<rparr>\<rparr>]"
    by simp
  have names: "map ObjectMeta.Name (map PersistentVolumeClaim.ObjectMeta
      (VolumeClaimTemplates (StatefulSet.Spec ?st))) = [''chiaroot'']"
    unfolding vct by (simp add: ObjectMeta0_def)
  note claim = owner_references_of_synthesized_resources [where pq = anyQuantity and node = ?node
      and st = ?st and vols = "Volumes (PodTemplateSpec.Spec (Template (StatefulSet.Spec ?st)))"
      and vcts = "VolumeClaimTemplates (StatefulSet.Spec ?st)"]
  from claim eq vs
  have un: "\<forall>c \<in> set (VolumeClaimTemplates (StatefulSet.Spec ?st)).
      OwnerReferences (PersistentVolumeClaim.ObjectMeta c) = []"
    by blast
  from names obtain c where c: "VolumeClaimTemplates (StatefulSet.Spec ?st) = [c]"
    by (cases "VolumeClaimTemplates (StatefulSet.Spec ?st)") auto
  with un have owners: "map OwnerReferences (map PersistentVolumeClaim.ObjectMeta
      (VolumeClaimTemplates (StatefulSet.Spec ?st))) = [[]]"
    by simp
  from claim eq
  have "OwnerReferences (StatefulSet.ObjectMeta ?st) = getOwnerReference ?node
      \<and> OwnerReferences (Service.ObjectMeta (assembleHeadlessService ?node)) = getOwnerReference ?node
      \<and> getOwnerReference ?node =
          [\<lparr>OwnerReference.APIVersion = TypeMeta.APIVersion (ChiaNode.TypeMeta ?node),
            OwnerReference.Kind = TypeMeta.Kind (ChiaNode.TypeMeta ?node),
            OwnerReference.Name = ObjectMeta.Name (ChiaNode.ObjectMeta ?node),
            OwnerReference.UID = ObjectMeta.UID (ChiaNode.ObjectMeta ?node),
            Controller = Some True\<rparr>]"
    by blast
  moreover have "TypeMeta.APIVersion (ChiaNode.TypeMeta ?node) = ''k8s.chia.net/v1''"
    and "TypeMeta.Kind (ChiaNode.TypeMeta ?node) = ''ChiaNode''"
    and "ObjectMeta.Name (ChiaNode.ObjectMeta ?node) = ''alpha''"
    and "ObjectMeta.UID (ChiaNode.ObjectMeta ?node) = ''uid-1''"
    by (simp_all add: withChiaRoot_def alpha_def ObjectMeta0_def)
  ultimately show ?thesis using ok names owners by simp
qed

text \<open>The claim as first stated fails at the volume claim template: it is synthesized from
  the Spec with an empty list of owner references.\<close>

theorem owner_reference_counterexample:
  "getChiaVolumesAndTemplates anyQuantity
     (withChiaRoot \<lparr>PersistentVolumeClaim = Some claim100Gi, HostPathVolume = None\<rparr> alpha) =
     Inr ([\<lparr>Volume.Name = ''secret-ca'', Secret = Some \<lparr>SecretName = ''chiaca-secret''\<rparr>,
             HostPath = None, EmptyDir = None\<rparr>],
          [\<lparr>PersistentVolumeClaim.ObjectMeta =
              \<lparr>ObjectMeta.Name = ''chiaroot'', Namespace = [], UID = [], Labels = Map.empty,
               Annotations = Map.empty, OwnerReferences = []\<rparr>,
            PersistentVolumeClaim.Spec =
              \<lparr>AccessModes = [''ReadWriteOnce''], StorageClassName = Some ''standard'',
               PersistentVolumeClaimSpec.Resources =
                 \<lparr>Limits = Map.empty, Requests = [''storage'' \<mapsto> ''100Gi'']\<rparr>\<rparr>\<rparr>])
   \<and> map OwnerReferences (map PersistentVolumeClaim.ObjectMeta (snd (projr
        (getChiaVolumesAndTemplates anyQuantity
          (withChiaRoot \<lparr>PersistentVolumeClaim = Some claim100Gi, HostPathVolume = None\<rparr> alpha))))) =
      [[]]
   \<and> getOwnerReference
        (withChiaRoot \<lparr>PersistentVolumeClaim = Some claim100Gi, HostPathVolume = None\<rparr> alpha) \<noteq> []"
  by (simp add: getChiaVolumesAndTemplates_def MustParse_def ParseQuantity_def anyQuantity_def
        withChiaRoot_def alpha_def claim100Gi_def Let_def ObjectMeta0_def Volume0_def
        ResourceRequirements0_def getOwnerReference_def)

text \<open>
  C10.  The workload's governing service name is the Spec's name followed by
  \<open>-headless\<close>, while the headless Service is named the Spec's name followed by
  \<open>-node-headless\<close>; so, for a Spec with a non-empty name, the governing service name is the
  name of none of the four synthesized Services.
\<close>

theorem governing_service_name:
  "(assembleStatefulset pq node = Inr st \<longrightarrow>
      ServiceName (StatefulSet.Spec st) = ObjectMeta.Name (ChiaNode.ObjectMeta node) @ ''-headless'')
   \<and> ObjectMeta.Name (Service.ObjectMeta (assembleHeadlessService node)) =
        ObjectMeta.Name (ChiaNode.ObjectMeta node) @ ''-node-headless''
   \<and> (ObjectMeta.Name (ChiaNode.ObjectMeta node) \<noteq> [] \<and> assembleStatefulset pq node = Inr st \<longrightarrow>
        ServiceName (StatefulSet.Spec st) \<notin>
          {ObjectMeta.Name (Service.ObjectMeta (assembleBaseService node)),
           ObjectMeta.Name (Service.ObjectMeta (assembleInternalService node)),
           ObjectMeta.Name (Service.ObjectMeta (assembleHeadlessService node)),
           ObjectMeta.Name (Service.ObjectMeta (assembleChiaExporterService node))})"
proof (intro conjI impI)
  show "ServiceName (StatefulSet.Spec st) = ObjectMeta.Name (ChiaNode.ObjectMeta node) @ ''-headless''"
    if "assembleStatefulset pq node = Inr st"
    by (rule assembleStatefulset_Inr(3) [OF that])
  show "ServiceName (StatefulSet.Spec st) \<notin>
          {ObjectMeta.Name (Service.ObjectMeta (assembleBaseService node)),
           ObjectMeta.Name (Service.ObjectMeta (assembleInternalService node)),
           ObjectMeta.Name (Service.ObjectMeta (assembleHeadlessService node)),
           ObjectMeta.Name (Service.ObjectMeta (assembleChiaExporterService node))}"
    if "ObjectMeta.Name (ChiaNode.ObjectMeta node) \<noteq> [] \<and> assembleStatefulset pq node = Inr st"
  proof -
    from that have "assembleStatefulset pq node = Inr st" by simp
    then have "ServiceName (StatefulSet.Spec st) =
        ObjectMeta.Name (ChiaNode.ObjectMeta node) @ ''-headless''"
      by (rule assembleStatefulset_Inr(3))
    then show ?thesis
      by (simp add: assembleBaseService_def assembleInternalService_def
            assembleHeadlessService_def assembleChiaExporterService_def)
  qed
qed (simp add: assembleHeadlessService_def)

theorem governing_service_name_witness:
  "\<not> isl (assembleStatefulset anyQuantity alpha)
   \<and> ServiceName (StatefulSet.Spec (projr (assembleStatefulset anyQuantity alpha))) = ''alpha-headless''
   \<and> ObjectMeta.Name (Service.ObjectMeta (assembleHeadlessService alpha)) = ''alpha-node-headless''
   \<and> ServiceName (StatefulSet.Spec (projr (assembleStatefulset anyQuantity alpha))) \<notin>
          {ObjectMeta.Name (Service.ObjectMeta (assembleBaseService alpha)),
           ObjectMeta.Name (Service.ObjectMeta (assembleInternalService alpha)),
           ObjectMeta.Name (Service.ObjectMeta (assembleHeadlessService alpha)),
           ObjectMeta.Name (Service.ObjectMeta (assembleChiaExporterService alpha))}"
proof -
  have ok: "\<not> isl (assembleStatefulset anyQuantity alpha)"
    by (simp add: assembleStatefulset_isl getChiaVolumesAndTemplates_isl alpha_def)
  then have eq: "assembleStatefulset anyQuantity alpha =
      Inr (projr (assembleStatefulset anyQuantity alpha))"
    by (cases "assembleStatefulset anyQuantity alpha") simp_all
  have name: "ObjectMeta.Name (ChiaNode.ObjectMeta alpha) = ''alpha''"
    by (simp add: alpha_def ObjectMeta0_def)
  then have nonempty: "ObjectMeta.Name (ChiaNode.ObjectMeta alpha) \<noteq> []"
    by simp
  note claim = governing_service_name [where pq = anyQuantity and node = alpha
      and st = "projr (assembleStatefulset anyQuantity alpha)"]
  from claim eq have 1: "ServiceName (StatefulSet.Spec (projr (assembleStatefulset anyQuantity alpha))) =
      ObjectMeta.Name (ChiaNode.ObjectMeta alpha) @ ''-headless''"
    by blast
  from claim have 2: "ObjectMeta.Name (Service.ObjectMeta (assembleHeadlessService alpha)) =
      ObjectMeta.Name (ChiaNode.ObjectMeta alpha) @ ''-node-headless''"
    by blast
  from claim eq nonempty
  have 3: "ServiceName (StatefulSet.Spec (projr (assembleStatefulset anyQuantity alpha))) \<notin>
          {ObjectMeta.Name (Service.ObjectMeta (assembleBaseService alpha)),
           ObjectMeta.Name (Service.ObjectMeta (assembleInternalService alpha)),
           ObjectMeta.Name (Service.ObjectMeta (assembleHeadlessService alpha)),
           ObjectMeta.Name (Service.ObjectMeta (assembleChiaExporterService alpha))}"
    by blast
  from ok 1 2 3 show ?thesis unfolding name by simp
qed

text \<open>
  C2, as amended.  The label selectors of the four Services and the label set of the
  workload's pod template are one and the same map: the common labels built over the
  user's additional labels.  The workload's own label selector is built without the
  additional labels; it is contained in the pod-template label set, and equals it exactly
  when every additional label key is one of the four reserved identity keys.
\<close>

theorem selectors_and_template_labels:
  "ServiceSpec.Selector (Service.Spec (assembleBaseService node)) =
     ChiaNodeReconciler_getCommonLabels node
       [AdditionalMetadata.Labels (AdditionalMetadata (ChiaNode.Spec node))]
   \<and> ServiceSpec.Selector (Service.Spec (assembleInternalService node)) =
     ChiaNodeReconciler_getCommonLabels node
       [AdditionalMetadata.Labels (AdditionalMetadata (ChiaNode.Spec node))]
   \<and> ServiceSpec.Selector (Service.Spec (assembleHeadlessService node)) =
     ChiaNodeReconciler_getCommonLabels node
       [AdditionalMetadata.Labels (AdditionalMetadata (ChiaNode.Spec node))]
   \<and> ServiceSpec.Selector (Service.Spec (assembleChiaExporterService node)) =
     ChiaNodeReconciler_getCommonLabels node
       [AdditionalMetadata.Labels (AdditionalMetadata (ChiaNode.Spec node))]
   \<and> (assembleStatefulset pq node = Inr st \<longrightarrow>
        ObjectMeta.Labels (PodTemplateSpec.ObjectMeta (Template (StatefulSet.Spec st))) =
          ChiaNodeReconciler_getCommonLabels node
            [AdditionalMetadata.Labels (AdditionalMetadata (ChiaNode.Spec node))]
        \<and> StatefulSetSpec.Selector (StatefulSet.Spec st) =
          Some \<lparr>MatchLabels = ChiaNodeReconciler_getCommonLabels node []\<rparr>)
   \<and> ChiaNodeReconciler_getCommonLabels node [] \<subseteq>\<^sub>m
        ChiaNodeReconciler_getCommonLabels node
          [AdditionalMetadata.Labels (AdditionalMetadata (ChiaNode.Spec node))]
   \<and> (ChiaNodeReconciler_getCommonLabels node [] =
        ChiaNodeReconciler_getCommonLabels node
          [AdditionalMetadata.Labels (AdditionalMetadata (ChiaNode.Spec node))]
      \<longleftrightarrow> dom (AdditionalMetadata.Labels (AdditionalMetadata (ChiaNode.Spec node))) \<subseteq>
            {''app.kubernetes.io/instance'', ''chianode-owner'', ''app.kubernetes.io/name'',
             ''app.kubernetes.io/managed-by''})"
proof (intro conjI impI)
  let ?user = "AdditionalMetadata.Labels (AdditionalMetadata (ChiaNode.Spec node))"
  let ?keys = "{''app.kubernetes.io/instance'', ''chianode-owner'', ''app.kubernetes.io/name'',
             ''app.kubernetes.io/managed-by''}"
  show "ChiaNodeReconciler_getCommonLabels node [] \<subseteq>\<^sub>m
        ChiaNodeReconciler_getCommonLabels node [?user]"
    by (simp add: getCommonLabels_eq map_le_def)
  show "(ChiaNodeReconciler_getCommonLabels node [] =
        ChiaNodeReconciler_getCommonLabels node [?user]) \<longleftrightarrow> dom ?user \<subseteq> ?keys"
  proof
    assume eq: "ChiaNodeReconciler_getCommonLabels node [] =
        ChiaNodeReconciler_getCommonLabels node [?user]"
    show "dom ?user \<subseteq> ?keys"
    proof
      fix k assume "k \<in> dom ?user"
      then obtain v where v: "?user k = Some v" by auto
      show "k \<in> ?keys"
      proof (rule ccontr)
        assume "k \<notin> ?keys"
        with v have "ChiaNodeReconciler_getCommonLabels node [?user] k = Some v"
          and "ChiaNodeReconciler_getCommonLabels node [] k = None"
          by (simp_all add: getCommonLabels_eq map_add_def)
        with eq show False by simp
      qed
    qed
  next
    assume sub: "dom ?user \<subseteq> ?keys"
    show "ChiaNodeReconciler_getCommonLabels node [] =
        ChiaNodeReconciler_getCommonLabels node [?user]"
    proof (rule ext)
      fix k
      show "ChiaNodeReconciler_getCommonLabels node [] k =
        ChiaNodeReconciler_getCommonLabels node [?user] k"
      proof (cases "k \<in> ?keys")
        case True
        then show ?thesis by (auto simp add: getCommonLabels_eq)
      next
        case False
        with sub have "?user k = None" by blast
        with False show ?thesis by (simp add: getCommonLabels_eq map_add_def)
      qed
    qed
  qed
qed (simp_all add: assembleBaseService_def assembleInternalService_def assembleHeadlessService_def
       assembleChiaExporterService_def ServiceSpec0_def assembleStatefulset_Inr(2,4))

text \<open>With the additional label \<open>team = farm\<close> the synthesis returns a workload.\<close>

theorem selectors_and_template_labels_witness:
  "ObjectMeta.Labels (PodTemplateSpec.ObjectMeta (Template (StatefulSet.Spec
      (projr (assembleStatefulset anyQuantity (withLabels [''team'' \<mapsto> ''farm''] alpha)))))) =
     ServiceSpec.Selector (Service.Spec (assembleBaseService (withLabels [''team'' \<mapsto> ''farm''] alpha)))
   \<and> StatefulSetSpec.Selector (StatefulSet.Spec
      (projr (assembleStatefulset anyQuantity (withLabels [''team'' \<mapsto> ''farm''] alpha)))) =
     Some \<lparr>MatchLabels = ChiaNodeReconciler_getCommonLabels (withLabels [''team'' \<mapsto> ''farm''] alpha) []\<rparr>"
proof -
  have "\<not> isl (assembleStatefulset anyQuantity (withLabels [''team'' \<mapsto> ''farm''] alpha))"
    by (simp add: assembleStatefulset_isl getChiaVolumesAndTemplates_isl withLabels_def alpha_def)
  then have "assembleStatefulset anyQuantity (withLabels [''team'' \<mapsto> ''farm''] alpha) =
     Inr (projr (assembleStatefulset anyQuantity (withLabels [''team'' \<mapsto> ''farm''] alpha)))"
    by (cases "assembleStatefulset anyQuantity (withLabels [''team'' \<mapsto> ''farm''] alpha)") simp_all
  with selectors_and_template_labels [where pq = anyQuantity
      and node = "withLabels [''team'' \<mapsto> ''farm''] alpha"
      and st = "projr (assembleStatefulset anyQuantity (withLabels [''team'' \<mapsto> ''farm''] alpha))"]
  show ?thesis by simp
qed

text \<open>The claim as first stated fails there: the workload's selector has no entry for
  \<open>team\<close>, the Services' selector and the pod-template labels have one.\<close>

theorem selectors_counterexample:
  "\<not> isl (assembleStatefulset anyQuantity (withLabels [''team'' \<mapsto> ''farm''] alpha))
   \<and> StatefulSetSpec.Selector (StatefulSet.Spec
        (projr (assembleStatefulset anyQuantity (withLabels [''team'' \<mapsto> ''farm''] alpha)))) \<noteq>
      Some \<lparr>MatchLabels = ServiceSpec.Selector (Service.Spec
        (assembleBaseService (withLabels [''team'' \<mapsto> ''farm''] alpha)))\<rparr>
   \<and> map_option (\<lambda>sel. MatchLabels sel ''team'') (StatefulSetSpec.Selector (StatefulSet.Spec
        (projr (assembleStatefulset anyQuantity (withLabels [''team'' \<mapsto> ''farm''] alpha))))) =
      Some None
   \<and> ServiceSpec.Selector (Service.Spec (assembleBaseService (withLabels [''team'' \<mapsto> ''farm''] alpha)))
        ''team'' = Some ''farm''
   \<and> ObjectMeta.Labels (PodTemplateSpec.ObjectMeta (Template (StatefulSet.Spec
        (projr (assembleStatefulset anyQuantity (withLabels [''team'' \<mapsto> ''farm''] alpha))))))
        ''team'' = Some ''farm''"
proof -
  let ?node = "withLabels [''team'' \<mapsto> ''farm''] alpha"
  have ok: "\<not> isl (assembleStatefulset anyQuantity ?node)"
    by (simp add: assembleStatefulset_isl getChiaVolumesAndTemplates_isl withLabels_def alpha_def)
  then have "assembleStatefulset anyQuantity ?node = Inr (projr (assembleStatefulset anyQuantity ?node))"
    by (cases "assembleStatefulset anyQuantity ?node") simp_all
  note st = assembleStatefulset_Inr(2,4) [OF this]
  have user: "AdditionalMetadata.Labels (AdditionalMetadata (ChiaNode.Spec ?node)) =
      [''team'' \<mapsto> ''farm'']"
    by (simp add: withLabels_def)
  have none: "ChiaNodeReconciler_getCommonLabels ?node [] ''team'' = None"
    unfolding getCommonLabels_eq by simp
  have some: "ChiaNodeReconciler_getCommonLabels ?node [[''team'' \<mapsto> ''farm'']] ''team'' =
      Some ''farm''"
    unfolding getCommonLabels_eq by simp
  have sel: "ServiceSpec.Selector (Service.Spec (assembleBaseService ?node)) =
      ChiaNodeReconciler_getCommonLabels ?node [[''team'' \<mapsto> ''farm'']]"
    by (simp add: assembleBaseService_def ServiceSpec0_def user)
  have "ChiaNodeReconciler_getCommonLabels ?node [] \<noteq>
      ChiaNodeReconciler_getCommonLabels ?node [[''team'' \<mapsto> ''farm'']]"
    using none some by (metis option.distinct(1))
  with ok none some show ?thesis
    unfolding st sel user by simp
qed

text \<open>
  C3, as amended.  Volume selection for the chiaroot storage is ordered by precedence.
  With a persistent-volume-claim descriptor whose storage request parses as a quantity (a
  host-path descriptor may be set as well) the only chiaroot storage is a volume claim
  template named \<open>chiaroot\<close>, and the pod's volumes hold no host-path volume; with only a
  host-path descriptor, a host-path volume named \<open>chiaroot\<close>; with neither, one
  empty-directory volume named \<open>chiaroot\<close>.  Whenever the synthesis returns, volumes and
  claim templates together hold exactly one entry named \<open>chiaroot\<close>, and they are the
  volumes and claim templates of the workload.  The synthesis fails to return exactly when
  a claim descriptor is set whose storage request does not parse: then
  \<^verbatim>\<open>resource.MustParse\<close> panics with the parser's error, for the volumes and for the
  workload alike, and no volume or claim template is produced.
\<close>

theorem chiaroot_volume_precedence:
  "(Storage (ChiaNode.Spec node) = Some storage \<and> ChiaRoot storage = Some chiaRoot \<and>
      PersistentVolumeClaim chiaRoot = Some pvc \<and>
      ParseQuantity pq (ResourceRequest pvc) = Inr quantity \<longrightarrow>
        getChiaVolumesAndTemplates pq node =
          Inr ([\<lparr>Volume.Name = ''secret-ca'',
                  Secret = Some \<lparr>SecretName = CASecretName (ChiaConfig (ChiaNode.Spec node))\<rparr>,
                  HostPath = None, EmptyDir = None\<rparr>],
               [\<lparr>PersistentVolumeClaim.ObjectMeta = ObjectMeta0\<lparr>ObjectMeta.Name := ''chiaroot''\<rparr>,
                 PersistentVolumeClaim.Spec =
                   \<lparr>AccessModes = [''ReadWriteOnce''],
                    StorageClassName = Some (StorageClass pvc),
                    PersistentVolumeClaimSpec.Resources =
                      \<lparr>Limits = Map.empty, Requests = [''storage'' \<mapsto> quantity]\<rparr>\<rparr>\<rparr>]))
   \<and> (Storage (ChiaNode.Spec node) = Some storage \<and> ChiaRoot storage = Some chiaRoot \<and>
      PersistentVolumeClaim chiaRoot = None \<and> HostPathVolume chiaRoot = Some hostPath \<longrightarrow>
        getChiaVolumesAndTemplates pq node =
          Inr ([\<lparr>Volume.Name = ''secret-ca'',
                  Secret = Some \<lparr>SecretName = CASecretName (ChiaConfig (ChiaNode.Spec node))\<rparr>,
                  HostPath = None, EmptyDir = None\<rparr>,
                \<lparr>Volume.Name = ''chiaroot'', Secret = None,
                  HostPath = Some \<lparr>HostPathVolumeSource.Path = HostPathVolumeConfig.Path hostPath\<rparr>,
                  EmptyDir = None\<rparr>],
               []))
   \<and> (Storage (ChiaNode.Spec node) = None \<or>
      Storage (ChiaNode.Spec node) = Some storage \<and>
        (ChiaRoot storage = None \<or>
         ChiaRoot storage = Some chiaRoot \<and> PersistentVolumeClaim chiaRoot = None \<and>
           HostPathVolume chiaRoot = None) \<longrightarrow>
        getChiaVolumesAndTemplates pq node =
          Inr ([\<lparr>Volume.Name = ''secret-ca'',
                  Secret = Some \<lparr>SecretName = CASecretName (ChiaConfig (ChiaNode.Spec node))\<rparr>,
                  HostPath = None, EmptyDir = None\<rparr>,
                \<lparr>Volume.Name = ''chiaroot'', Secret = None, HostPath = None,
                  EmptyDir = Some \<lparr>Medium = []\<rparr>\<rparr>],
               []))
   \<and> (getChiaVolumesAndTemplates pq node = Inr (vols, vcts) \<longrightarrow>
        length (filter (\<lambda>v. Volume.Name v = ''chiaroot'') vols) +
        length (filter (\<lambda>c. ObjectMeta.Name (PersistentVolumeClaim.ObjectMeta c) = ''chiaroot'') vcts) = 1)
   \<and> (getChiaVolumesAndTemplates pq node = Inr (vols, vcts) \<and> assembleStatefulset pq node = Inr st \<longrightarrow>
        Volumes (PodTemplateSpec.Spec (Template (StatefulSet.Spec st))) = vols \<and>
        VolumeClaimTemplates (StatefulSet.Spec st) = vcts)
   \<and> isl (getChiaVolumesAndTemplates pq node) =
       (\<exists>storage chiaRoot pvc. Storage (ChiaNode.Spec node) = Some storage \<and>
          ChiaRoot storage = Some chiaRoot \<and> PersistentVolumeClaim chiaRoot = Some pvc \<and>
          isl (ParseQuantity pq (ResourceRequest pvc)))
   \<and> (Storage (ChiaNode.Spec node) = Some storage \<and> ChiaRoot storage = Some chiaRoot \<and>
      PersistentVolumeClaim chiaRoot = Some pvc \<and>
      ParseQuantity pq (ResourceRequest pvc) = Inl err \<longrightarrow>
        getChiaVolumesAndTemplates pq node =
          Inl (Panic (OtherError
            (''cannot parse '' @ [CHR 0x27] @ ResourceRequest pvc @ [CHR 0x27] @ '': '' @ Error err)))
        \<and> assembleStatefulset pq node =
          Inl (Panic (OtherError
            (''cannot parse '' @ [CHR 0x27] @ ResourceRequest pvc @ [CHR 0x27] @ '': '' @ Error err))))"
proof (intro conjI impI)
  show "isl (getChiaVolumesAndTemplates pq node) =
       (\<exists>storage chiaRoot pvc. Storage (ChiaNode.Spec node) = Some storage \<and>
          ChiaRoot storage = Some chiaRoot \<and> PersistentVolumeClaim chiaRoot = Some pvc \<and>
          isl (ParseQuantity pq (ResourceRequest pvc)))"
    by (rule getChiaVolumesAndTemplates_isl)
  assume unparsable: "Storage (ChiaNode.Spec node) = Some storage \<and> ChiaRoot storage = Some chiaRoot \<and>
      PersistentVolumeClaim chiaRoot = Some pvc \<and>
      ParseQuantity pq (ResourceRequest pvc) = Inl err"
  then show panics: "getChiaVolumesAndTemplates pq node =
          Inl (Panic (OtherError
            (''cannot parse '' @ [CHR 0x27] @ ResourceRequest pvc @ [CHR 0x27] @ '': '' @ Error err)))"
    by (simp add: getChiaVolumesAndTemplates_def MustParse_def Let_def)
  show "assembleStatefulset pq node =
          Inl (Panic (OtherError
            (''cannot parse '' @ [CHR 0x27] @ ResourceRequest pvc @ [CHR 0x27] @ '': '' @ Error err)))"
    by (simp add: assembleStatefulset_def Let_def panics)
next
  show "length (filter (\<lambda>v. Volume.Name v = ''chiaroot'') vols) +
        length (filter (\<lambda>c. ObjectMeta.Name (PersistentVolumeClaim.ObjectMeta c) = ''chiaroot'') vcts) = 1"
    if "getChiaVolumesAndTemplates pq node = Inr (vols, vcts)"
    using that
    by (auto simp add: getChiaVolumesAndTemplates_def Let_def Volume0_def ObjectMeta0_def
          split: option.splits sum.splits)
qed (auto simp add: getChiaVolumesAndTemplates_def MustParse_def Let_def Volume0_def
       ResourceRequirements0_def dest: assembleStatefulset_Inr(5))

text \<open>Both descriptors set and the request \<open>100Gi\<close> accepted: the claim template alone.
  A host path alone: the host-path volume.  No storage block: the empty directory.  A claim
  descriptor with the empty request: the panic.\<close>

theorem chiaroot_volume_precedence_witness:
  "getChiaVolumesAndTemplates anyQuantity
     (withChiaRoot \<lparr>PersistentVolumeClaim = Some claim100Gi, HostPathVolume = Some hostData\<rparr> alpha) =
     Inr ([\<lparr>Volume.Name = ''secret-ca'', Secret = Some \<lparr>SecretName = ''chiaca-secret''\<rparr>,
             HostPath = None, EmptyDir = None\<rparr>],
          [\<lparr>PersistentVolumeClaim.ObjectMeta = ObjectMeta0\<lparr>ObjectMeta.Name := ''chiaroot''\<rparr>,
            PersistentVolumeClaim.Spec =
              \<lparr>AccessModes = [''ReadWriteOnce''], StorageClassName = Some ''standard'',
               PersistentVolumeClaimSpec.Resources =
                 \<lparr>Limits = Map.empty, Requests = [''storage'' \<mapsto> ''100Gi'']\<rparr>\<rparr>\<rparr>])
   \<and> getChiaVolumesAndTemplates anyQuantity
     (withChiaRoot \<lparr>PersistentVolumeClaim = None, HostPathVolume = Some hostData\<rparr> alpha) =
     Inr ([\<lparr>Volume.Name = ''secret-ca'', Secret = Some \<lparr>SecretName = ''chiaca-secret''\<rparr>,
             HostPath = None, EmptyDir = None\<rparr>,
           \<lparr>Volume.Name = ''chiaroot'', Secret = None,
             HostPath = Some \<lparr>HostPathVolumeSource.Path = ''/mnt/chia''\<rparr>, EmptyDir = None\<rparr>],
          [])
   \<and> getChiaVolumesAndTemplates anyQuantity alpha =
     Inr ([\<lparr>Volume.Name = ''secret-ca'', Secret = Some \<lparr>SecretName = ''chiaca-secret''\<rparr>,
             HostPath = None, EmptyDir = None\<rparr>,
           \<lparr>Volume.Name = ''chiaroot'', Secret = None, HostPath = None,
             EmptyDir = Some \<lparr>Medium = []\<rparr>\<rparr>],
          [])
   \<and> \<not> isl (assembleStatefulset anyQuantity alpha)
   \<and> Volumes (PodTemplateSpec.Spec (Template (StatefulSet.Spec
        (projr (assembleStatefulset anyQuantity alpha))))) =
      [\<lparr>Volume.Name = ''secret-ca'', Secret = Some \<lparr>SecretName = ''chiaca-secret''\<rparr>,
         HostPath = None, EmptyDir = None\<rparr>,
       \<lparr>Volume.Name = ''chiaroot'', Secret = None, HostPath = None,
         EmptyDir = Some \<lparr>Medium = []\<rparr>\<rparr>]
   \<and> VolumeClaimTemplates (StatefulSet.Spec (projr (assembleStatefulset anyQuantity alpha))) = []
   \<and> isl (getChiaVolumesAndTemplates anyQuantity
       (withChiaRoot \<lparr>PersistentVolumeClaim = Some claimEmpty, HostPathVolume = None\<rparr> alpha))
   \<and> isl (assembleStatefulset anyQuantity
       (withChiaRoot \<lparr>PersistentVolumeClaim = Some claimEmpty, HostPathVolume = None\<rparr> alpha))"
proof -
  let ?empty = "\<lparr>PersistentVolumeClaim = Some claimEmpty, HostPathVolume = None\<rparr>"
  let ?both = "\<lparr>PersistentVolumeClaim = Some claim100Gi, HostPathVolume = Some hostData\<rparr>"
  let ?host = "\<lparr>PersistentVolumeClaim = None, HostPathVolume = Some hostData\<rparr>"
  note claim = chiaroot_volume_precedence
  have 1: "getChiaVolumesAndTemplates anyQuantity (withChiaRoot ?both alpha) =
     Inr ([\<lparr>Volume.Name = ''secret-ca'', Secret = Some \<lparr>SecretName = ''chiaca-secret''\<rparr>,
             HostPath = None, EmptyDir = None\<rparr>],
          [\<lparr>PersistentVolumeClaim.ObjectMeta = ObjectMeta0\<lparr>ObjectMeta.Name := ''chiaroot''\<rparr>,
            PersistentVolumeClaim.Spec =
              \<lparr>AccessModes = [''ReadWriteOnce''], StorageClassName = Some ''standard'',
               PersistentVolumeClaimSpec.Resources =
                 \<lparr>Limits = Map.empty, Requests = [''storage'' \<mapsto> ''100Gi'']\<rparr>\<rparr>\<rparr>])"
    using claim [where pq = anyQuantity and node = "withChiaRoot ?both alpha"
      and storage = "\<lparr>ChiaRoot = Some ?both\<rparr>" and chiaRoot = ?both
      and pvc = claim100Gi and quantity = "''100Gi''"]
    by (simp add: withChiaRoot_def alpha_def claim100Gi_def ParseQuantity_def anyQuantity_def)
  have 2: "getChiaVolumesAndTemplates anyQuantity (withChiaRoot ?host alpha) =
     Inr ([\<lparr>Volume.Name = ''secret-ca'', Secret = Some \<lparr>SecretName = ''chiaca-secret''\<rparr>,
             HostPath = None, EmptyDir = None\<rparr>,
           \<lparr>Volume.Name = ''chiaroot'', Secret = None,
             HostPath = Some \<lparr>HostPathVolumeSource.Path = ''/mnt/chia''\<rparr>, EmptyDir = None\<rparr>],
          [])"
    using claim [where pq = anyQuantity and node = "withChiaRoot ?host alpha"
      and storage = "\<lparr>ChiaRoot = Some ?host\<rparr>" and chiaRoot = ?host and hostPath = hostData]
    by (simp add: withChiaRoot_def alpha_def hostData_def)
  have 3: "getChiaVolumesAndTemplates anyQuantity alpha =
     Inr ([\<lparr>Volume.Name = ''secret-ca'', Secret = Some \<lparr>SecretName = ''chiaca-secret''\<rparr>,
             HostPath = None, EmptyDir = None\<rparr>,
           \<lparr>Volume.Name = ''chiaroot'', Secret = None, HostPath = None,
             EmptyDir = Some \<lparr>Medium = []\<rparr>\<rparr>],
          [])"
    using claim [where pq = anyQuantity and node = alpha]
    by (simp add: alpha_def)
  have ok: "\<not> isl (assembleStatefulset anyQuantity alpha)"
    by (simp add: assembleStatefulset_isl 3)
  then have eq: "assembleStatefulset anyQuantity alpha =
      Inr (projr (assembleStatefulset anyQuantity alpha))"
    by (cases "assembleStatefulset anyQuantity alpha") simp_all
  from claim [where pq = anyQuantity and node = alpha
      and st = "projr (assembleStatefulset anyQuantity alpha)", THEN conjunct2, THEN conjunct2,
      THEN conjunct2, THEN conjunct2, THEN conjunct1, rule_format, OF conjI [OF 3 eq]]
  have 4: "Volumes (PodTemplateSpec.Spec (Template (StatefulSet.Spec
        (projr (assembleStatefulset anyQuantity alpha))))) =
      [\<lparr>Volume.Name = ''secret-ca'', Secret = Some \<lparr>SecretName = ''chiaca-secret''\<rparr>,
         HostPath = None, EmptyDir = None\<rparr>,
       \<lparr>Volume.Name = ''chiaroot'', Secret = None, HostPath = None,
         EmptyDir = Some \<lparr>Medium = []\<rparr>\<rparr>]
   \<and> VolumeClaimTemplates (StatefulSet.Spec (projr (assembleStatefulset anyQuantity alpha))) = []" .
  have 5: "isl (getChiaVolumesAndTemplates anyQuantity (withChiaRoot ?empty alpha))
      \<and> isl (assembleStatefulset anyQuantity (withChiaRoot ?empty alpha))"
    using claim [where pq = anyQuantity and node = "withChiaRoot ?empty alpha"
      and storage = "\<lparr>ChiaRoot = Some ?empty\<rparr>" and chiaRoot = ?empty
      and pvc = claimEmpty and err = ErrFormatWrong]
    by (simp add: withChiaRoot_def alpha_def claimEmpty_def ParseQuantity_def)
  from 1 2 3 ok 4 5 show ?thesis by blast
qed

text \<open>The claim as first stated fails where the storage request does not parse: with the
  empty request, \<^verbatim>\<open>resource.MustParse\<close> panics and no chiaroot storage is produced.\<close>

theorem chiaroot_volume_precedence_counterexample:
  "getChiaVolumesAndTemplates anyQuantity
     (withChiaRoot \<lparr>PersistentVolumeClaim = Some claimEmpty, HostPathVolume = Some hostData\<rparr> alpha) =
     Inl (Panic (OtherError (''cannot parse '' @ [CHR 0x27, CHR 0x27] @
            '': quantities must match the regular expression'')))"
  by (simp add: getChiaVolumesAndTemplates_def MustParse_def ParseQuantity_def ErrFormatWrong_def
        withChiaRoot_def alpha_def claimEmpty_def Let_def)

text \<open>
  C1, as amended.  Synthesis of the four Services, of the labels, the environment, the
  ports, the mounts and the owner reference always returns.  Synthesis of the volumes and
  claim templates, and with it of the stateful workload, fails in exactly one case: a
  persistent-volume-claim descriptor is set and its storage request is not a parsable
  quantity (the empty string never is).  Then \<^verbatim>\<open>resource.MustParse\<close> panics inside the
  synthesis: a pass whose four Service submissions succeed panics before the workload is
  built, and the workload is never submitted.
\<close>

theorem synthesis_panics_on_unparsable_claim_request:
  "isl (getChiaVolumesAndTemplates pq node) =
     (\<exists>storage chiaRoot pvc. Storage (ChiaNode.Spec node) = Some storage \<and>
        ChiaRoot storage = Some chiaRoot \<and> PersistentVolumeClaim chiaRoot = Some pvc \<and>
        isl (ParseQuantity pq (ResourceRequest pvc)))
   \<and> isl (assembleStatefulset pq node) = isl (getChiaVolumesAndTemplates pq node)
   \<and> isl (ParseQuantity pq [])
   \<and> (Get_answer r (NamespacedName req) = Inr node \<and>
      ReconcileResource_answer r
        [GetCall (NamespacedName req)]
        (ServiceObject (assembleBaseService node)) StatePresent = (res1, None) \<and>
      ReconcileResource_answer r
        [GetCall (NamespacedName req),
         ReconcileResourceCall (ServiceObject (assembleBaseService node)) StatePresent]
        (ServiceObject (assembleInternalService node)) StatePresent = (res2, None) \<and>
      ReconcileResource_answer r
        [GetCall (NamespacedName req),
         ReconcileResourceCall (ServiceObject (assembleBaseService node)) StatePresent,
         ReconcileResourceCall (ServiceObject (assembleInternalService node)) StatePresent]
        (ServiceObject (assembleHeadlessService node)) StatePresent = (res3, None) \<and>
      ReconcileResource_answer r
        [GetCall (NamespacedName req),
         ReconcileResourceCall (ServiceObject (assembleBaseService node)) StatePresent,
         ReconcileResourceCall (ServiceObject (assembleInternalService node)) StatePresent,
         ReconcileResourceCall (ServiceObject (assembleHeadlessService node)) StatePresent]
        (ServiceObject (assembleChiaExporterService node)) StatePresent = (res4, None) \<and>
      assembleStatefulset pq node = Inl p \<longrightarrow>
        Reconcile pq r req =
          (Panicked p,
           [GetCall (NamespacedName req),
            ReconcileResourceCall (ServiceObject (assembleBaseService node)) StatePresent,
            ReconcileResourceCall (ServiceObject (assembleInternalService node)) StatePresent,
            ReconcileResourceCall (ServiceObject (assembleHeadlessService node)) StatePresent,
            ReconcileResourceCall (ServiceObject (assembleChiaExporterService node)) StatePresent]))"
proof (intro conjI impI)
  show "isl (ParseQuantity pq [])"
    by (simp add: ParseQuantity_def)
qed (simp_all add: getChiaVolumesAndTemplates_isl assembleStatefulset_isl Reconcile_panic)

text \<open>A parsable request and an absent storage block synthesize; the empty request panics
  after the four Services were submitted.\<close>

theorem synthesis_panics_on_unparsable_claim_request_witness:
  "\<not> isl (assembleStatefulset anyQuantity
       (withChiaRoot \<lparr>PersistentVolumeClaim = Some claim100Gi, HostPathVolume = None\<rparr> alpha))
   \<and> \<not> isl (assembleStatefulset anyQuantity alpha)
   \<and> isl (assembleStatefulset anyQuantity
       (withChiaRoot \<lparr>PersistentVolumeClaim = Some claimEmpty, HostPathVolume = None\<rparr> alpha))
   \<and> snd (Reconcile anyQuantity
       (healthy (withChiaRoot \<lparr>PersistentVolumeClaim = Some claimEmpty, HostPathVolume = None\<rparr> alpha))
       alphaRequest) =
      [GetCall \<lparr>NamespacedName.Namespace = ''chia'', NamespacedName.Name = ''alpha''\<rparr>,
       ReconcileResourceCall (ServiceObject (assembleBaseService
         (withChiaRoot \<lparr>PersistentVolumeClaim = Some claimEmpty, HostPathVolume = None\<rparr> alpha)))
         StatePresent,
       ReconcileResourceCall (ServiceObject (assembleInternalService
         (withChiaRoot \<lparr>PersistentVolumeClaim = Some claimEmpty, HostPathVolume = None\<rparr> alpha)))
         StatePresent,
       ReconcileResourceCall (ServiceObject (assembleHeadlessService
         (withChiaRoot \<lparr>PersistentVolumeClaim = Some claimEmpty, HostPathVolume = None\<rparr> alpha)))
         StatePresent,
       ReconcileResourceCall (ServiceObject (assembleChiaExporterService
         (withChiaRoot \<lparr>PersistentVolumeClaim = Some claimEmpty, HostPathVolume = None\<rparr> alpha)))
         StatePresent]
   \<and> fst (Reconcile anyQuantity
       (healthy (withChiaRoot \<lparr>PersistentVolumeClaim = Some claimEmpty, HostPathVolume = None\<rparr> alpha))
       alphaRequest) =
      Panicked (Panic (OtherError (''cannot parse '' @ [CHR 0x27, CHR 0x27] @
            '': quantities must match the regular expression'')))"
proof -
  let ?good = "withChiaRoot \<lparr>PersistentVolumeClaim = Some claim100Gi, HostPathVolume = None\<rparr> alpha"
  let ?bad = "withChiaRoot \<lparr>PersistentVolumeClaim = Some claimEmpty, HostPathVolume = None\<rparr> alpha"
  let ?p = "Panic (OtherError (''cannot parse '' @ [CHR 0x27, CHR 0x27] @
            '': quantities must match the regular expression''))"
  note claim = synthesis_panics_on_unparsable_claim_request
  have 1: "\<not> isl (assembleStatefulset anyQuantity ?good)"
    using claim [where pq = anyQuantity and node = ?good]
    by (simp add: withChiaRoot_def alpha_def claim100Gi_def ParseQuantity_def anyQuantity_def)
  have 2: "\<not> isl (assembleStatefulset anyQuantity alpha)"
    using claim [where pq = anyQuantity and node = alpha]
    by (simp add: alpha_def)
  have 3: "isl (assembleStatefulset anyQuantity ?bad)"
    using claim [where pq = anyQuantity and node = ?bad]
    by (simp add: withChiaRoot_def alpha_def claimEmpty_def)
  have p: "assembleStatefulset anyQuantity ?bad = Inl ?p"
    by (simp add: assembleStatefulset_def getChiaVolumesAndTemplates_def MustParse_def
        ParseQuantity_def ErrFormatWrong_def withChiaRoot_def alpha_def claimEmpty_def Let_def)
  have 4: "Reconcile anyQuantity (healthy ?bad) alphaRequest =
      (Panicked ?p,
       [GetCall (NamespacedName alphaRequest),
        ReconcileResourceCall (ServiceObject (assembleBaseService ?bad)) StatePresent,
        ReconcileResourceCall (ServiceObject (assembleInternalService ?bad)) StatePresent,
        ReconcileResourceCall (ServiceObject (assembleHeadlessService ?bad)) StatePresent,
        ReconcileResourceCall (ServiceObject (assembleChiaExporterService ?bad)) StatePresent])"
    using claim [where pq = anyQuantity and node = ?bad and r = "healthy ?bad"
        and req = alphaRequest and p = ?p and ?res1.0 = None and ?res2.0 = None
        and ?res3.0 = None and ?res4.0 = None] p
    by (simp add: healthy_def)
  from 1 2 3 show ?thesis unfolding 4 by (simp add: alphaRequest_def)
qed

text \<open>The claim as first stated fails at a claim descriptor with an empty storage request:
  the synthesis of the workload panics.\<close>

theorem synthesis_panic_counterexample:
  "assembleStatefulset anyQuantity
     (withChiaRoot \<lparr>PersistentVolumeClaim = Some claimEmpty, HostPathVolume = None\<rparr> alpha) =
     Inl (Panic (OtherError (''cannot parse '' @ [CHR 0x27, CHR 0x27] @
            '': quantities must match the regular expression'')))"
  by (simp add: assembleStatefulset_def getChiaVolumesAndTemplates_def MustParse_def
        ParseQuantity_def ErrFormatWrong_def withChiaRoot_def alpha_def claimEmpty_def Let_def)

text \<open>
  C9.  When fetching the triggering Spec answers with a not-found error, the pass returns
  the empty result and no error, and the fetch is the only call it makes: nothing is
  submitted and no status is written.
\<close>

theorem Reconcile_not_found:
  "Get_answer r (NamespacedName req) = Inl err \<and> IsNotFound err \<longrightarrow>
     Reconcile pq r req = (Returned Result0 None, [GetCall (NamespacedName req)])"
  by (simp add: Reconcile_def Get_def)

theorem Reconcile_not_found_witness:
  "Reconcile anyQuantity deleted alphaRequest =
     (Returned \<lparr>Requeue = False, RequeueAfter = 0\<rparr> None,
      [GetCall \<lparr>NamespacedName.Namespace = ''chia'', NamespacedName.Name = ''alpha''\<rparr>])"
  using Reconcile_not_found [where r = deleted and req = alphaRequest and pq = anyQuantity
      and err = "NotFoundError ''chianodes.k8s.chia.net not found''"]
  by (simp add: deleted_def alphaRequest_def Result0_def)

text \<open>
  C7.  In every pass in which the convergence of some child resource fails, the failing
  submission is the last call of the pass (no further child resource is attempted), the
  returned error names the request's namespace and name and the resource that failed, and
  no status update is sent.  A status update is sent only as the last call of a pass whose
  five submissions all succeeded, and it carries \<open>Ready = True\<close>.
\<close>

theorem Reconcile_aborts_on_convergence_error:
  "(Reconcile pq r req = (out, tr) \<and> i < length tr \<and>
      tr ! i = ReconcileResourceCall obj desired \<and>
      ReconcileResource_answer r (take i tr) obj desired = (res, Some err) \<longrightarrow>
        Suc i = length tr
        \<and> (\<forall>n. StatusUpdateCall n \<notin> set tr)
        \<and> (\<exists>node what.
              Get_answer r (NamespacedName req) = Inr node
              \<and> out = Returned (case res of None \<Rightarrow> Result0 | Some res \<Rightarrow> res)
                   (Some (OtherError (''ChiaNodeReconciler ChiaNode='' @
                      String (NamespacedName req) @
                      '' encountered error reconciling '' @ what @ '': '' @ Error err)))
              \<and> (i = 1 \<and> obj = ServiceObject (assembleBaseService node)
                    \<and> what = ''node Service''
                  \<or> i = 2 \<and> obj = ServiceObject (assembleInternalService node)
                    \<and> what = ''node Local Service''
                  \<or> i = 3 \<and> obj = ServiceObject (assembleHeadlessService node)
                    \<and> what = ''node headless Service''
                  \<or> i = 4 \<and> obj = ServiceObject (assembleChiaExporterService node)
                    \<and> what = ''node chia-exporter Service''
                  \<or> i = 5 \<and> (\<exists>stateful. assembleStatefulset pq node = Inr stateful
                          \<and> obj = StatefulSetObject stateful)
                    \<and> what = ''node StatefulSet'')))
   \<and> (Reconcile pq r req = (out, tr) \<and> StatusUpdateCall n \<in> set tr \<longrightarrow>
        (\<exists>node stateful.
           Get_answer r (NamespacedName req) = Inr node
           \<and> assembleStatefulset pq node = Inr stateful
           \<and> n = node\<lparr>Status := (Status node)\<lparr>Ready := True\<rparr>\<rparr>
           \<and> tr = [GetCall (NamespacedName req),
                 ReconcileResourceCall (ServiceObject (assembleBaseService node)) StatePresent,
                 ReconcileResourceCall (ServiceObject (assembleInternalService node)) StatePresent,
                 ReconcileResourceCall (ServiceObject (assembleHeadlessService node)) StatePresent,
                 ReconcileResourceCall (ServiceObject (assembleChiaExporterService node)) StatePresent,
                 ReconcileResourceCall (StatefulSetObject stateful) StatePresent,
                 StatusUpdateCall n]
           \<and> snd (ReconcileResource_answer r
                  [GetCall (NamespacedName req)]
                  (ServiceObject (assembleBaseService node)) StatePresent) = None
           \<and> snd (ReconcileResource_answer r
                  [GetCall (NamespacedName req),
                   ReconcileResourceCall (ServiceObject (assembleBaseService node)) StatePresent]
                  (ServiceObject (assembleInternalService node)) StatePresent) = None
           \<and> snd (ReconcileResource_answer r
                  [GetCall (NamespacedName req),
                   ReconcileResourceCall (ServiceObject (assembleBaseService node)) StatePresent,
                   ReconcileResourceCall (ServiceObject (assembleInternalService node)) StatePresent]
                  (ServiceObject (assembleHeadlessService node)) StatePresent) = None
           \<and> snd (ReconcileResource_answer r
                  [GetCall (NamespacedName req),
                   ReconcileResourceCall (ServiceObject (assembleBaseService node)) StatePresent,
                   ReconcileResourceCall (ServiceObject (assembleInternalService node)) StatePresent,
                   ReconcileResourceCall (ServiceObject (assembleHeadlessService node)) StatePresent]
                  (ServiceObject (assembleChiaExporterService node)) StatePresent) = None
           \<and> snd (ReconcileResource_answer r
                  [GetCall (NamespacedName req),
                   ReconcileResourceCall (ServiceObject (assembleBaseService node)) StatePresent,
                   ReconcileResourceCall (ServiceObject (assembleInternalService node)) StatePresent,
                   ReconcileResourceCall (ServiceObject (assembleHeadlessService node)) StatePresent,
                   ReconcileResourceCall (ServiceObject (assembleChiaExporterService node)) StatePresent]
                  (StatefulSetObject stateful) StatePresent) = None))"
proof (cases "Get_answer r (NamespacedName req)")
  case (Inl e)
  show ?thesis
    unfolding Reconcile_fetch_error [OF Inl] by (auto simp add: less_Suc_eq)
next
  case (Inr node)
  obtain res1 e1 where a1':
    "ReconcileResource_answer r
        [GetCall (NamespacedName req)]
        (ServiceObject (assembleBaseService node)) StatePresent = (res1, e1)"
    by (cases "ReconcileResource_answer r
        [GetCall (NamespacedName req)]
        (ServiceObject (assembleBaseService node)) StatePresent")
  show ?thesis
  proof (cases e1)
    case (Some e)
    note a1 = a1' [unfolded Some]
    show ?thesis
      unfolding Reconcile_fail1 [OF Inr  a1]
      using Inr  a1 by (auto simp add: less_Suc_eq)
  next
    case None
    note a1 = a1' [unfolded None]
    obtain res2 e2 where a2':
      "ReconcileResource_answer r
          [GetCall (NamespacedName req),
           ReconcileResourceCall (ServiceObject (assembleBaseService node)) StatePresent]
          (ServiceObject (assembleInternalService node)) StatePresent = (res2, e2)"
      by (cases "ReconcileResource_answer r
          [GetCall (NamespacedName req),
           ReconcileResourceCall (ServiceObject (assembleBaseService node)) StatePresent]
          (ServiceObject (assembleInternalService node)) StatePresent")
    show ?thesis
    proof (cases e2)
      case (Some e)
      note a2 = a2' [unfolded Some]
      show ?thesis
        unfolding Reconcile_fail2 [OF Inr a1 a2]
        using Inr a1 a2 by (auto simp add: less_Suc_eq)
    next
      case None
      note a2 = a2' [unfolded None]
      obtain res3 e3 where a3':
        "ReconcileResource_answer r
            [GetCall (NamespacedName req),
             ReconcileResourceCall (ServiceObject (assembleBaseService node)) StatePresent,
             ReconcileResourceCall (ServiceObject (assembleInternalService node)) StatePresent]
            (ServiceObject (assembleHeadlessService node)) StatePresent = (res3, e3)"
        by (cases "ReconcileResource_answer r
            [GetCall (NamespacedName req),
             ReconcileResourceCall (ServiceObject (assembleBaseService node)) StatePresent,
             ReconcileResourceCall (ServiceObject (assembleInternalService node)) StatePresent]
            (ServiceObject (assembleHeadlessService node)) StatePresent")
      show ?thesis
      proof (cases e3)
        case (Some e)
        note a3 = a3' [unfolded Some]
        show ?thesis
          unfolding Reconcile_fail3 [OF Inr a1 a2 a3]
          using Inr a1 a2 a3 by (auto simp add: less_Suc_eq)
      next
        case None
        note a3 = a3' [unfolded None]
        obtain res4 e4 where a4':
          "ReconcileResource_answer r
              [GetCall (NamespacedName req),
               ReconcileResourceCall (ServiceObject (assembleBaseService node)) StatePresent,
               ReconcileResourceCall (ServiceObject (assembleInternalService node)) StatePresent,
               ReconcileResourceCall (ServiceObject (assembleHeadlessService node)) StatePresent]
              (ServiceObject (assembleChiaExporterService node)) StatePresent = (res4, e4)"
          by (cases "ReconcileResource_answer r
              [GetCall (NamespacedName req),
               ReconcileResourceCall (ServiceObject (assembleBaseService node)) StatePresent,
               ReconcileResourceCall (ServiceObject (assembleInternalService node)) StatePresent,
               ReconcileResourceCall (ServiceObject (assembleHeadlessService node)) StatePresent]
              (ServiceObject (assembleChiaExporterService node)) StatePresent")
        show ?thesis
        proof (cases e4)
          case (Some e)
          note a4 = a4' [unfolded Some]
          show ?thesis
            unfolding Reconcile_fail4 [OF Inr a1 a2 a3 a4]
            using Inr a1 a2 a3 a4 by (auto simp add: less_Suc_eq)
        next
          case None
          note a4 = a4' [unfolded None]
          show ?thesis
          proof (cases "assembleStatefulset pq node")
            case (Inl p)
            show ?thesis
              unfolding Reconcile_panic [OF Inr a1 a2 a3 a4 Inl]
              using Inr Inl a1 a2 a3 a4 by (auto simp add: less_Suc_eq)
          next
            case st: (Inr stateful)
            obtain res5 e5 where a5':
              "ReconcileResource_answer r
                  [GetCall (NamespacedName req),
                   ReconcileResourceCall (ServiceObject (assembleBaseService node)) StatePresent,
                   ReconcileResourceCall (ServiceObject (assembleInternalService node)) StatePresent,
                   ReconcileResourceCall (ServiceObject (assembleHeadlessService node)) StatePresent,
                   ReconcileResourceCall (ServiceObject (assembleChiaExporterService node)) StatePresent]
                  (StatefulSetObject stateful) StatePresent = (res5, e5)"
              by (cases "ReconcileResource_answer r
                  [GetCall (NamespacedName req),
                   ReconcileResourceCall (ServiceObject (assembleBaseService node)) StatePresent,
                   ReconcileResourceCall (ServiceObject (assembleInternalService node)) StatePresent,
                   ReconcileResourceCall (ServiceObject (assembleHeadlessService node)) StatePresent,
                   ReconcileResourceCall (ServiceObject (assembleChiaExporterService node)) StatePresent]
                  (StatefulSetObject stateful) StatePresent")
            show ?thesis
            proof (cases e5)
              case (Some e)
              note a5 = a5' [unfolded Some]
              show ?thesis
                unfolding Reconcile_fail5 [OF Inr a1 a2 a3 a4 st a5]
                using Inr a1 a2 a3 a4 st a5 by (auto simp add: less_Suc_eq)
            next
              case None
              note a5 = a5' [unfolded None]
              show ?thesis
                unfolding Reconcile_converged [OF Inr a1 a2 a3 a4 st a5 refl]
                using Inr a1 a2 a3 a4 st a5 by (auto simp add: less_Suc_eq)
            qed
          qed
        qed
      qed
    qed
  qed
qed

text \<open>The second submission fails: the pass stops after two submissions and reports the
  internal Service of \<open>chia/alpha\<close>.  On a cluster where every call succeeds the pass
  submits the five resources and then writes the status.\<close>

theorem Reconcile_aborts_on_convergence_error_witness:
  "Reconcile anyQuantity (secondFails alpha) alphaRequest =
     (Returned \<lparr>Requeue = False, RequeueAfter = 0\<rparr>
        (Some (OtherError (''ChiaNodeReconciler ChiaNode=chia/alpha encountered error '' @
           ''reconciling node Local Service: connection refused''))),
      [GetCall \<lparr>NamespacedName.Namespace = ''chia'', NamespacedName.Name = ''alpha''\<rparr>,
       ReconcileResourceCall (ServiceObject (assembleBaseService alpha)) StatePresent,
       ReconcileResourceCall (ServiceObject (assembleInternalService alpha)) StatePresent])
   \<and> ReconcileResource_answer (secondFails alpha)
       [GetCall \<lparr>NamespacedName.Namespace = ''chia'', NamespacedName.Name = ''alpha''\<rparr>,
        ReconcileResourceCall (ServiceObject (assembleBaseService alpha)) StatePresent]
       (ServiceObject (assembleInternalService alpha)) StatePresent =
     (None, Some (OtherError ''connection refused''))
   \<and> (\<forall>n. StatusUpdateCall n \<notin> set (snd (Reconcile anyQuantity (secondFails alpha) alphaRequest)))
   \<and> length (snd (Reconcile anyQuantity (secondFails alpha) alphaRequest)) = 3
   \<and> \<not> isl (assembleStatefulset anyQuantity alpha)
   \<and> Reconcile anyQuantity (healthy alpha) alphaRequest =
     (Returned \<lparr>Requeue = False, RequeueAfter = 0\<rparr> None,
      [GetCall \<lparr>NamespacedName.Namespace = ''chia'', NamespacedName.Name = ''alpha''\<rparr>,
       ReconcileResourceCall (ServiceObject (assembleBaseService alpha)) StatePresent,
       ReconcileResourceCall (ServiceObject (assembleInternalService alpha)) StatePresent,
       ReconcileResourceCall (ServiceObject (assembleHeadlessService alpha)) StatePresent,
       ReconcileResourceCall (ServiceObject (assembleChiaExporterService alpha)) StatePresent,
       ReconcileResourceCall (StatefulSetObject (projr (assembleStatefulset anyQuantity alpha)))
         StatePresent,
       StatusUpdateCall (alpha\<lparr>Status := \<lparr>Ready = True\<rparr>\<rparr>)])"
proof -
  have R: "Reconcile anyQuantity (secondFails alpha) alphaRequest =
     (Returned \<lparr>Requeue = False, RequeueAfter = 0\<rparr>
        (Some (OtherError (''ChiaNodeReconciler ChiaNode=chia/alpha encountered error '' @
           ''reconciling node Local Service: connection refused''))),
      [GetCall \<lparr>NamespacedName.Namespace = ''chia'', NamespacedName.Name = ''alpha''\<rparr>,
       ReconcileResourceCall (ServiceObject (assembleBaseService alpha)) StatePresent,
       ReconcileResourceCall (ServiceObject (assembleInternalService alpha)) StatePresent])"
    using Reconcile_fail2 [where r = "secondFails alpha" and req = alphaRequest and node = alpha
        and ?res1.0 = None and res = None and err = "OtherError ''connection refused''"
        and pq = anyQuantity]
    by (simp add: secondFails_def alphaRequest_def String_def Result0_def)
  have A: "ReconcileResource_answer (secondFails alpha)
       [GetCall \<lparr>NamespacedName.Namespace = ''chia'', NamespacedName.Name = ''alpha''\<rparr>,
        ReconcileResourceCall (ServiceObject (assembleBaseService alpha)) StatePresent]
       (ServiceObject (assembleInternalService alpha)) StatePresent =
     (None, Some (OtherError ''connection refused''))"
    by (simp add: secondFails_def)
  from Reconcile_aborts_on_convergence_error [where pq = anyQuantity and r = "secondFails alpha"
      and req = alphaRequest and i = 2
      and obj = "ServiceObject (assembleInternalService alpha)" and desired = StatePresent
      and res = None and err = "OtherError ''connection refused''", THEN conjunct1, rule_format,
      OF conjI [OF R], simplified, OF A]
  have N: "\<forall>n. StatusUpdateCall n \<notin> set (snd (Reconcile anyQuantity (secondFails alpha) alphaRequest))"
    unfolding R by simp
  have ok: "\<not> isl (assembleStatefulset anyQuantity alpha)"
    by (simp add: assembleStatefulset_isl getChiaVolumesAndTemplates_isl alpha_def)
  then have eq: "assembleStatefulset anyQuantity alpha =
      Inr (projr (assembleStatefulset anyQuantity alpha))"
    by (cases "assembleStatefulset anyQuantity alpha") simp_all
  have ready: "alpha\<lparr>Status := (Status alpha)\<lparr>Ready := True\<rparr>\<rparr> = alpha\<lparr>Status := \<lparr>Ready = True\<rparr>\<rparr>"
    by (simp add: alpha_def)
  have H: "Reconcile anyQuantity (healthy alpha) alphaRequest =
     (Returned \<lparr>Requeue = False, RequeueAfter = 0\<rparr> None,
      [GetCall \<lparr>NamespacedName.Namespace = ''chia'', NamespacedName.Name = ''alpha''\<rparr>,
       ReconcileResourceCall (ServiceObject (assembleBaseService alpha)) StatePresent,
       ReconcileResourceCall (ServiceObject (assembleInternalService alpha)) StatePresent,
       ReconcileResourceCall (ServiceObject (assembleHeadlessService alpha)) StatePresent,
       ReconcileResourceCall (ServiceObject (assembleChiaExporterService alpha)) StatePresent,
       ReconcileResourceCall (StatefulSetObject (projr (assembleStatefulset anyQuantity alpha)))
         StatePresent,
       StatusUpdateCall (alpha\<lparr>Status := \<lparr>Ready = True\<rparr>\<rparr>)])"
    using Reconcile_converged [where r = "healthy alpha" and req = alphaRequest and node = alpha
        and pq = anyQuantity and stateful = "projr (assembleStatefulset anyQuantity alpha)"
        and ?res1.0 = None and ?res2.0 = None and ?res3.0 = None and ?res4.0 = None
        and ?res5.0 = None and upd = None, OF healthy_all(1) healthy_all(2) healthy_all(2)
        healthy_all(2) healthy_all(2) eq healthy_all(2) healthy_all(3)]
    unfolding ready by (simp add: alphaRequest_def Result0_def)
  from Reconcile_aborts_on_convergence_error [where pq = anyQuantity and r = "healthy alpha"
      and req = alphaRequest and n = "alpha\<lparr>Status := \<lparr>Ready = True\<rparr>\<rparr>", THEN conjunct2,
      rule_format, OF conjI [OF H]]
  have "\<exists>node stateful. Get_answer (healthy alpha) (NamespacedName alphaRequest) = Inr node
      \<and> assembleStatefulset anyQuantity node = Inr stateful
      \<and> alpha\<lparr>Status := \<lparr>Ready = True\<rparr>\<rparr> = node\<lparr>Status := (Status node)\<lparr>Ready := True\<rparr>\<rparr>"
    by auto
  with R A N ok H show ?thesis by simp
qed

end
